theory Spec2Isabelle
  imports Complex_Main "HOL-Library.Word" "HOL-Library.Sublist"
begin

unbundle bit_operations_syntax

section \<open>JavaScript strings and the string primitives used by the framer\<close>

text \<open>
  A JavaScript string is a sequence of UTF-16 code units; the bytes read from the network
  are 8-bit values. \<open>ascii\<close> turns a literal into the code units (or bytes) of its
  characters.
\<close>

type_synonym code_unit = "16 word"
type_synonym jsstring = "code_unit list"
type_synonym byte = "8 word"

definition ascii :: "string \<Rightarrow> 'a::len word list" where
  "ascii s = map of_char s"

text \<open>\<open>String.prototype.indexOf\<close> with a one-character pattern: the first index, or -1.\<close>

fun indexOf :: "'a list \<Rightarrow> 'a \<Rightarrow> int" where
  "indexOf [] c = -1"
| "indexOf (x # xs) c =
     (if x = c then 0 else (let i = indexOf xs c in if i = -1 then -1 else i + 1))"

text \<open>
  \<open>String.prototype.substring(start, end)\<close>: both arguments are clamped to
  \<open>[0, length]\<close> and swapped when \<open>start > end\<close>. \<open>substring_from\<close> is the
  one-argument call, whose end is the length of the string.
\<close>

definition substring :: "'a list \<Rightarrow> int \<Rightarrow> int \<Rightarrow> 'a list" where
  "substring s start end =
     (let len = int (length s);
          intStart = max 0 (min start len);
          intEnd = max 0 (min end len);
          from = min intStart intEnd;
          to = max intStart intEnd
      in take (nat (to - from)) (drop (nat from) s))"

definition substring_from :: "'a list \<Rightarrow> int \<Rightarrow> 'a list" where
  "substring_from s start = substring s start (int (length s))"

text \<open>
  \<open>parseInt(string, 10)\<close> (ECMAScript 19.2.5): leading white space and line terminators
  are skipped, one sign is accepted, the longest run of decimal digits that follows is the
  value, anything after it is ignored; no digit at all gives \<open>NaN\<close>, here \<open>None\<close>.
  The value is the exact integer. A double is exact below \<open>2 ^ 53\<close>, and above it both the
  exact and the rounded value exceed the length of any string, which is all the framer
  compares it with.
\<close>

definition isStrWhiteSpaceChar :: "code_unit \<Rightarrow> bool" where
  "isStrWhiteSpaceChar c \<longleftrightarrow>
     c \<in> {0x09, 0x0A, 0x0B, 0x0C, 0x0D, 0x20, 0xA0, 0x1680, 0x2028, 0x2029, 0x202F, 0x205F,
          0x3000, 0xFEFF} \<or> (0x2000 \<le> c \<and> c \<le> 0x200A)"

definition isDigit :: "code_unit \<Rightarrow> bool" where
  "isDigit c \<longleftrightarrow> 0x30 \<le> c \<and> c \<le> 0x39"

definition digitValue :: "code_unit \<Rightarrow> nat" where
  "digitValue c = unat c - 48"

definition parseInt :: "jsstring \<Rightarrow> int option" where
  "parseInt inputString =
     (let S = dropWhile isStrWhiteSpaceChar inputString;
          sign = (if S \<noteq> [] \<and> hd S = 0x2D then -1 else 1);
          S' = (if S \<noteq> [] \<and> (hd S = 0x2B \<or> hd S = 0x2D) then tl S else S);
          Z = takeWhile isDigit S'
      in if Z = [] then None
         else Some (sign * int (foldl (\<lambda>acc c. 10 * acc + digitValue c) 0 Z)))"

section \<open>The framer: \<open>processBuffer\<close>\<close>

text \<open>
  \<open>processBuffer\<close> is a \<open>while (true)\<close> loop over a local buffer. Its two effects are the
  call of \<open>handleMessage\<close> on a complete frame and the \<open>console.error\<close> on a prefix that
  is not a number; neither can change the buffer, so both are parameters here
  (\<open>handle\<close>, \<open>report\<close>) acting on a state of any type. The loop does not always end (a
  prefix such as \<open>-2\<close> gives a total length of 0, and the buffer is then never
  shortened), so the result is an option: \<open>None\<close> is a call that never returns.
\<close>

definition LBRACKET :: "'a::len word" where
  "LBRACKET = 0x5B"

partial_function (option) processBuffer ::
  "(jsstring \<Rightarrow> 's \<Rightarrow> 's) \<Rightarrow> (jsstring \<Rightarrow> int \<Rightarrow> 's \<Rightarrow> 's) \<Rightarrow> jsstring \<Rightarrow> 's
     \<Rightarrow> (jsstring \<times> 's) option"
where
  "processBuffer report handle buffer st =
     (let jsonStartIndex = indexOf buffer LBRACKET in
      if jsonStartIndex = -1 then Some (buffer, st)
      else
        let lengthPrefixStr = substring buffer 0 jsonStartIndex in
        case parseInt lengthPrefixStr of
          None \<Rightarrow> Some (substring_from buffer jsonStartIndex, report lengthPrefixStr st)
        | Some messageLength \<Rightarrow>
            let totalMessageLength = int (length lengthPrefixStr) + messageLength in
            if int (length buffer) < totalMessageLength then Some (buffer, st)
            else
              let messageJsonStr = substring buffer jsonStartIndex totalMessageLength in
              processBuffer report handle (substring_from buffer totalMessageLength)
                (handle messageJsonStr messageLength st))"

declare processBuffer.simps [code]

text \<open>
  The body of the read loop of \<open>listen\<close>:
  \<open>buffer += decoder.decode(value); buffer = this.processBuffer(buffer, chatId)\<close>.
  The decoder is the platform's \<open>TextDecoder\<close>, a parameter. \<open>feed\<close> runs the body over
  the chunks of a stream in order, from a given buffer.
\<close>

definition pump ::
  "(byte list \<Rightarrow> jsstring) \<Rightarrow> (jsstring \<Rightarrow> 's \<Rightarrow> 's) \<Rightarrow> (jsstring \<Rightarrow> int \<Rightarrow> 's \<Rightarrow> 's)
     \<Rightarrow> jsstring \<Rightarrow> byte list \<Rightarrow> 's \<Rightarrow> (jsstring \<times> 's) option" where
  "pump decode report handle buffer v st = processBuffer report handle (buffer @ decode v) st"

fun feed ::
  "(byte list \<Rightarrow> jsstring) \<Rightarrow> (jsstring \<Rightarrow> 's \<Rightarrow> 's) \<Rightarrow> (jsstring \<Rightarrow> int \<Rightarrow> 's \<Rightarrow> 's)
     \<Rightarrow> byte list list \<Rightarrow> jsstring \<Rightarrow> 's \<Rightarrow> (jsstring \<times> 's) option" where
  "feed decode report handle [] buffer st = Some (buffer, st)"
| "feed decode report handle (v # vs) buffer st =
     (case pump decode report handle buffer v st of
        None \<Rightarrow> None
      | Some (buffer', st') \<Rightarrow> feed decode report handle vs buffer' st')"

text \<open>
  Observers: \<open>record_frame\<close> as \<open>handle\<close> collects the dispatched payloads with their
  lengths, in order; \<open>no_report\<close> ignores the error report.
\<close>

definition record_frame :: "jsstring \<Rightarrow> int \<Rightarrow> (jsstring \<times> int) list \<Rightarrow> (jsstring \<times> int) list" where
  "record_frame messageJsonStr messageLength acc = acc @ [(messageJsonStr, messageLength)]"

definition no_report :: "jsstring \<Rightarrow> 's \<Rightarrow> 's" where
  "no_report lengthPrefixStr st = st"

definition dispatched :: "(byte list \<Rightarrow> jsstring) \<Rightarrow> byte list list \<Rightarrow> jsstring list option" where
  "dispatched decode chunks =
     map_option (\<lambda>(buffer, acc). map fst acc) (feed decode no_report record_frame chunks [] [])"

section \<open>The wire format of a frame\<close>

text \<open>
  The frame format of the stream: the decimal length of the payload, then the payload,
  which begins with \<open>[\<close>. \<open>decimal\<close> is the canonical decimal numeral.
\<close>

definition digitUnit :: "nat \<Rightarrow> 'a::len word" where
  "digitUnit d = of_nat (48 + d)"

fun decimal :: "nat \<Rightarrow> 'a::len word list" where
  "decimal n = (if n < 10 then [digitUnit n] else decimal (n div 10) @ [digitUnit (n mod 10)])"

declare decimal.simps [simp del]

definition encodeFrame :: "'a::len word list \<Rightarrow> 'a word list" where
  "encodeFrame payload = decimal (length payload) @ payload"

definition wellFramed :: "'a::len word list \<Rightarrow> bool" where
  "wellFramed payload \<longleftrightarrow> payload \<noteq> [] \<and> hd payload = LBRACKET"

section \<open>The platform's \<open>TextDecoder\<close>\<close>

text \<open>
  \<open>new TextDecoder()\<close> decodes UTF-8, replaces malformed input by U+FFFD and removes one
  leading byte order mark. \<open>listen\<close> calls \<open>decoder.decode(value)\<close> without
  \<open>{stream: true}\<close>, so every call decodes its chunk from the initial state and flushes
  at the end of the chunk: a sequence cut by the end of the chunk gives U+FFFD.
  \<open>utf8_decode\<close> is the decoder of the WHATWG Encoding Standard (code point so far,
  bytes seen, bytes needed, lower and upper boundary of the next byte); a byte outside the
  boundaries ends the sequence with an error and is read again as a first byte. The masks
  \<open>byte & 0x1F\<close>, \<open>& 0xF\<close>, \<open>& 0x7\<close>, \<open>& 0x3F\<close> are written as remainders and the
  shift \<open>cp << 6\<close> as a product. The result is in UTF-16 code units.
\<close>

fun utf8_decode :: "nat \<Rightarrow> nat \<Rightarrow> nat \<Rightarrow> nat \<Rightarrow> nat \<Rightarrow> nat list \<Rightarrow> nat list" where
  "utf8_decode cp seen needed lower upper [] = (if needed \<noteq> 0 then [0xFFFD] else [])"
| "utf8_decode cp seen needed lower upper (b # bs) =
     (if needed = 0 then
        if b \<le> 0x7F then b # utf8_decode 0 0 0 0x80 0xBF bs
        else if 0xC2 \<le> b \<and> b \<le> 0xDF then utf8_decode (b mod 0x20) 0 1 0x80 0xBF bs
        else if 0xE0 \<le> b \<and> b \<le> 0xEF then
          utf8_decode (b mod 0x10) 0 2 (if b = 0xE0 then 0xA0 else 0x80)
            (if b = 0xED then 0x9F else 0xBF) bs
        else if 0xF0 \<le> b \<and> b \<le> 0xF4 then
          utf8_decode (b mod 0x8) 0 3 (if b = 0xF0 then 0x90 else 0x80)
            (if b = 0xF4 then 0x8F else 0xBF) bs
        else 0xFFFD # utf8_decode 0 0 0 0x80 0xBF bs
      else if b < lower \<or> upper < b then 0xFFFD # utf8_decode 0 0 0 0x80 0xBF (b # bs)
      else if seen + 1 \<noteq> needed then
        utf8_decode (cp * 0x40 + b mod 0x40) (seen + 1) needed 0x80 0xBF bs
      else (cp * 0x40 + b mod 0x40) # utf8_decode 0 0 0 0x80 0xBF bs)"

definition stripBOM :: "nat list \<Rightarrow> nat list" where
  "stripBOM cps = (case cps of [] \<Rightarrow> [] | c # cs \<Rightarrow> if c = 0xFEFF then cs else c # cs)"

definition utf16 :: "nat \<Rightarrow> code_unit list" where
  "utf16 cp =
     (if cp < 0x10000 then [of_nat cp]
      else [of_nat (0xD800 + (cp - 0x10000) div 0x400),
            of_nat (0xDC00 + (cp - 0x10000) mod 0x400)])"

definition TextDecoder_decode :: "byte list \<Rightarrow> jsstring" where
  "TextDecoder_decode bytes =
     concat (map utf16 (stripBOM (utf8_decode 0 0 0 0x80 0xBF (map unat bytes))))"

section \<open>Numbers\<close>

text \<open>
  The values of the type Number with which the reconnect policy computes: \<open>Finite x\<close> is
  the double of value \<open>x\<close> (the two zeros are one value), beside the two infinities and
  \<open>NaN\<close>. The options of the client are typed \<open>number\<close> and used as they are given, so
  each of them can be any of these.

  \<open>number_less x y\<close> is \<open>x < y\<close> and \<open>number_le x y\<close> is \<open>x <= y\<close>, both false when
  an operand is \<open>NaN\<close>; \<open>Math_min\<close> is \<open>Math.min\<close> of two arguments.
\<close>

datatype number = Finite real | PosInfinity | NegInfinity | NaN

fun number_less :: "number \<Rightarrow> number \<Rightarrow> bool" where
  "number_less (Finite x) (Finite y) = (x < y)"
| "number_less (Finite x) PosInfinity = True"
| "number_less NegInfinity (Finite y) = True"
| "number_less NegInfinity PosInfinity = True"
| "number_less x y = False"

fun number_le :: "number \<Rightarrow> number \<Rightarrow> bool" where
  "number_le (Finite x) (Finite y) = (x \<le> y)"
| "number_le (Finite x) PosInfinity = True"
| "number_le NegInfinity (Finite y) = True"
| "number_le NegInfinity PosInfinity = True"
| "number_le PosInfinity PosInfinity = True"
| "number_le NegInfinity NegInfinity = True"
| "number_le x y = False"

fun Math_min :: "number \<Rightarrow> number \<Rightarrow> number" where
  "Math_min (Finite x) (Finite y) = Finite (min x y)"
| "Math_min NaN y = NaN"
| "Math_min x NaN = NaN"
| "Math_min NegInfinity y = NegInfinity"
| "Math_min x NegInfinity = NegInfinity"
| "Math_min PosInfinity y = y"
| "Math_min x PosInfinity = x"

text \<open>
  \<open>timesPow2 x n\<close> is \<open>x * Math.pow(2, n)\<close> for a count \<open>n\<close>, the one product the source
  computes. \<open>Math.pow(2, n)\<close> is the double \<open>2 ^ n\<close> up to \<open>n = 1023\<close> and \<open>Infinity\<close>
  from 1024 on. The product of a double and a power of two that is at least 1 is never
  rounded: it is the exact product, or an infinity when the magnitude of that reaches
  \<open>2 ^ 1024\<close>. Zero times \<open>Infinity\<close> is \<open>NaN\<close>.
\<close>

definition timesPow2 :: "number \<Rightarrow> nat \<Rightarrow> number" where
  "timesPow2 x n =
     (case x of
        Finite d \<Rightarrow>
          if d = 0 then (if n < 1024 then Finite 0 else NaN)
          else if n < 1024 \<and> \<bar>d\<bar> * 2 ^ n < 2 ^ 1024 then Finite (d * 2 ^ n)
          else if 0 < d then PosInfinity else NegInfinity
      | PosInfinity \<Rightarrow> PosInfinity
      | NegInfinity \<Rightarrow> NegInfinity
      | NaN \<Rightarrow> NaN)"

section \<open>JavaScript values\<close>

text \<open>
  The values \<open>JSON.parse\<close> produces, with \<open>undefined\<close> and \<open>NaN\<close>. The TypeScript types
  of the source are not checked at run time: a field typed \<open>string\<close> or \<open>number\<close> holds
  whatever the response contained, so those fields are \<open>jsval\<close>. Numbers are the exact
  reals; an object is the list of its own properties.
\<close>

datatype jsval =
    JUndefined
  | JNull
  | JBool bool
  | JNum real
  | JNaN
  | JStr jsstring
  | JArr "jsval list"
  | JObj "(jsstring \<times> jsval) list"

datatype js_error =
    ChatDataNotFound
  | ChooseServerFailed jsstring
  | GsessionidNotFound
  | GetSIDFailed jsstring
  | InvalidGetSIDResponse
  | CouldNotExtractSID
  | SIDOrGsessionidNotFound
  | ListenRequestFailed jsstring
  | StreamClosedByServer
  | FailedToConnectAfter jsstring number
  | SyntaxError
  | TypeError
  | FetchRejected

definition nullish :: "jsval \<Rightarrow> bool" where
  "nullish v \<longleftrightarrow> v = JUndefined \<or> v = JNull"

text \<open>
  \<open>v?.[i]\<close> for an index \<open>i\<close>: \<open>undefined\<close> on \<open>null\<close> and \<open>undefined\<close>, the element of
  an array, the one-character string of a string, the own property named by the decimal
  numeral of an object, \<open>undefined\<close> where there is none and on numbers and booleans.
  \<open>v[i]\<close> is the same value, but throws a \<open>TypeError\<close> on \<open>null\<close> and \<open>undefined\<close>.
\<close>

fun optIndex :: "jsval \<Rightarrow> nat \<Rightarrow> jsval" where
  "optIndex (JArr xs) i = (if i < length xs then xs ! i else JUndefined)"
| "optIndex (JStr s) i = (if i < length s then JStr [s ! i] else JUndefined)"
| "optIndex (JObj kvs) i = (case map_of kvs (decimal i) of None \<Rightarrow> JUndefined | Some v \<Rightarrow> v)"
| "optIndex v i = JUndefined"

definition getIndex :: "jsval \<Rightarrow> nat \<Rightarrow> js_error + jsval" where
  "getIndex v i = (if nullish v then Inl TypeError else Inr (optIndex v i))"

text \<open>A chain \<open>v[i][j]...\<close> of throwing reads, and a chain \<open>v?.[i]?.[j]...\<close> of safe ones.\<close>

fun getPath :: "jsval \<Rightarrow> nat list \<Rightarrow> js_error + jsval" where
  "getPath v [] = Inr v"
| "getPath v (i # path) = (case getIndex v i of Inl e \<Rightarrow> Inl e | Inr w \<Rightarrow> getPath w path)"

fun optPath :: "jsval \<Rightarrow> nat list \<Rightarrow> jsval" where
  "optPath v [] = v"
| "optPath v (i # path) = optPath (optIndex v i) path"

definition isString :: "jsval \<Rightarrow> bool" where
  "isString v \<longleftrightarrow> (case v of JStr s \<Rightarrow> True | _ \<Rightarrow> False)"

text \<open>The characters of a value that is a string (read only where \<open>typeof\<close> says so).\<close>

fun theString :: "jsval \<Rightarrow> jsstring" where
  "theString (JStr s) = s"
| "theString v = []"

definition isArray :: "jsval \<Rightarrow> bool" where
  "isArray v \<longleftrightarrow> (case v of JArr xs \<Rightarrow> True | _ \<Rightarrow> False)"

text \<open>\<open>!v\<close> is \<open>\<not> truthy v\<close>.\<close>

fun truthy :: "jsval \<Rightarrow> bool" where
  "truthy JUndefined = False"
| "truthy JNull = False"
| "truthy (JBool b) = b"
| "truthy (JNum x) = (x \<noteq> 0)"
| "truthy JNaN = False"
| "truthy (JStr s) = (s \<noteq> [])"
| "truthy (JArr xs) = True"
| "truthy (JObj kvs) = True"

text \<open>
  What the platform provides and the source calls: \<open>JSON.parse\<close> (\<open>None\<close> is the
  \<open>SyntaxError\<close> it throws) and the conversion of strings and objects to numbers, used by
  \<open>Number(...)\<close> and by \<open>++\<close>.
\<close>

record platform =
  JSON_parse :: "jsstring \<Rightarrow> jsval option"
  StringToNumber :: "jsstring \<Rightarrow> jsval"
  ObjectToNumber :: "jsval \<Rightarrow> jsval"

definition ToNumber :: "platform \<Rightarrow> jsval \<Rightarrow> jsval" where
  "ToNumber P v =
     (case v of
        JUndefined \<Rightarrow> JNaN
      | JNull \<Rightarrow> JNum 0
      | JBool b \<Rightarrow> JNum (if b then 1 else 0)
      | JNum x \<Rightarrow> JNum x
      | JNaN \<Rightarrow> JNaN
      | JStr s \<Rightarrow> StringToNumber P s
      | _ \<Rightarrow> ObjectToNumber P v)"

definition increment :: "platform \<Rightarrow> jsval \<Rightarrow> jsval" where
  "increment P v = (case ToNumber P v of JNum x \<Rightarrow> JNum (x + 1) | _ \<Rightarrow> JNaN)"

text \<open>\<open>String.prototype.split\<close> with a one-character separator.\<close>

fun split :: "'a list \<Rightarrow> 'a \<Rightarrow> 'a list list" where
  "split [] c = [[]]"
| "split (x # xs) c =
     (if x = c then [] # split xs c
      else (case split xs c of [] \<Rightarrow> [[x]] | l # ls \<Rightarrow> (x # l) # ls))"

section \<open>The client: sessions, events and effects\<close>

text \<open>
  \<open>Chat\<close> is the source's type of the same name; \<open>refreshInterval\<close> tells whether the
  timer handle is set. The registry \<open>chats\<close> maps a chat id to an object; objects are
  mutated through references that outlive their entry in the registry, so the registry
  holds addresses and \<open>heap\<close> holds the objects.
\<close>

record Chat =
  chatId :: jsstring
  running :: bool
  gsessionid :: jsval
  nextRid :: int
  SID :: jsval
  AID :: jsval
  credsToken :: jsstring
  reconnectAttempts :: nat
  refreshInterval :: bool

text \<open>The payload of the \<open>sid\<close> event; each field of the source has the prefix \<open>rpc_\<close>.\<close>

record ConnectRPCData =
  rpc_rpcAid :: jsval
  rpc_cuhnkIndex :: jsval
  rpc_command :: jsval
  rpc_sid :: jsval
  rpc_gsessionid :: jsval
  rpc_version :: jsval
  rpc_aid :: jsval
  rpc_timeoutMs :: jsval

text \<open>
  An event carries the value its payload had when it was emitted. \<open>EvData\<close> has the
  fields \<open>data\<close>, \<open>messageLength\<close>, \<open>sequence\<close>, \<open>chatData\<close>; \<open>EvReconnecting\<close> has
  \<open>attempts\<close> and \<open>waitTime\<close>; \<open>EvPing\<close> has \<open>tms\<close> and \<open>chatData\<close>.
\<close>

datatype event =
    EvPart Chat
  | EvConnectionError js_error
  | EvReconnecting nat number
  | EvData jsval int jsval Chat
  | EvGsessoinId jsval
  | EvSid ConnectRPCData
  | EvConnected Chat
  | EvPing jsval Chat

datatype console_message =
    InvalidLengthPrefix jsstring
  | ErrorParsingJSON js_error
  | JSONWithError jsstring

datatype request =
    ChooseServerRequest
  | OptionsRequest int
  | GetSIDRequest int
  | ListenRequest jsval

text \<open>
  What the client does to the outside, in order: events emitted, lines written by
  \<open>console.error\<close>, requests sent, timers set and cleared, the stream reader cancelled, and
  the lifecycle task that \<open>join\<close> starts without waiting for it.
\<close>

datatype effect =
    Emit event
  | ConsoleError console_message
  | Fetch request
  | SetTimeout jsstring number
  | SetInterval jsstring
  | ClearInterval jsstring
  | ReaderCancel
  | StartConnect jsstring

type_synonym addr = nat

record Client =
  maxReconnectAttempts :: number
  initialReconnectDelayMs :: number
  maxReconnectWaitMs :: number
  chats :: "jsstring \<rightharpoonup> addr"
  heap :: "addr \<Rightarrow> Chat"
  nextAddr :: addr
  trace :: "effect list"

definition effect :: "effect \<Rightarrow> Client \<Rightarrow> Client" where
  "effect e st = st\<lparr>trace := trace st @ [e]\<rparr>"

text \<open>
  Modelled from the spec: the event emitter \<open>./lib/EventEmitter\<close> is not among the
  sources; \<open>emit\<close> publishes the event and returns.
\<close>

definition emit :: "event \<Rightarrow> Client \<Rightarrow> Client" where
  "emit ev st = effect (Emit ev) st"

definition modify :: "addr \<Rightarrow> (Chat \<Rightarrow> Chat) \<Rightarrow> Client \<Rightarrow> Client" where
  "modify a f st = st\<lparr>heap := (heap st)(a := f (heap st a))\<rparr>"

section \<open>The registry: constructor, \<open>stop\<close>, \<open>join\<close>\<close>

record ClientOptions =
  opt_maxReconnectAttempts :: "number option"
  opt_initialReconnectDelayMs :: "number option"
  opt_maxReconnectWaitMs :: "number option"

definition MAX_RECONNECT_ATTEMPTS :: number where "MAX_RECONNECT_ATTEMPTS = Finite 5"
definition INITIAL_RECONNECT_DELAY_MS :: number where "INITIAL_RECONNECT_DELAY_MS = Finite 1000"
definition MAX_RECONNECT_WAIT_MS :: number where "MAX_RECONNECT_WAIT_MS = Finite 30000"

definition emptyChat :: Chat where
  "emptyChat = \<lparr>chatId = [], running = False, gsessionid = JUndefined, nextRid = 0,
     SID = JUndefined, AID = JUndefined, credsToken = [], reconnectAttempts = 0,
     refreshInterval = False\<rparr>"

text \<open>The constructor; \<open>??\<close> takes the default where the option is absent.\<close>

definition newClient :: "ClientOptions \<Rightarrow> Client" where
  "newClient opts =
     \<lparr>maxReconnectAttempts =
        (case opt_maxReconnectAttempts opts of None \<Rightarrow> MAX_RECONNECT_ATTEMPTS | Some n \<Rightarrow> n),
      initialReconnectDelayMs =
        (case opt_initialReconnectDelayMs opts of None \<Rightarrow> INITIAL_RECONNECT_DELAY_MS | Some n \<Rightarrow> n),
      maxReconnectWaitMs =
        (case opt_maxReconnectWaitMs opts of None \<Rightarrow> MAX_RECONNECT_WAIT_MS | Some n \<Rightarrow> n),
      chats = Map.empty, heap = (\<lambda>a. emptyChat), nextAddr = 0, trace = []\<rparr>"

definition stop :: "jsstring \<Rightarrow> Client \<Rightarrow> Client" where
  "stop cid st =
     (case chats st cid of
        None \<Rightarrow> st
      | Some a \<Rightarrow>
          let st1 = modify a (\<lambda>c. c\<lparr>running := False\<rparr>) st;
              st2 = (if refreshInterval (heap st1 a) then effect (ClearInterval cid) st1 else st1);
              st3 = emit (EvPart (heap st2 a)) st2
          in st3\<lparr>chats := (chats st3)(cid := None)\<rparr>)"

text \<open>
  \<open>join\<close>: \<open>scaled\<close> is the value of \<open>1E5 * Math.random()\<close>, the double that the
  platform computes from its random number; \<open>Math.floor\<close> of a double is the exact
  floor. The call \<open>this.connect(chatId)\<close> is not awaited: the lifecycle runs as a task
  of its own (\<open>connect\<close> below), which the effect \<open>StartConnect\<close> records.
\<close>

definition join :: "real \<Rightarrow> jsstring \<Rightarrow> Client \<Rightarrow> Client" where
  "join scaled cid st =
     (if chats st cid \<noteq> None then st
      else
        let a = nextAddr st;
            chatData = \<lparr>chatId = cid, running = True, gsessionid = JStr [],
              nextRid = \<lfloor>scaled\<rfloor>, SID = JStr [], AID = JNum 0, credsToken = [],
              reconnectAttempts = 0, refreshInterval = False\<rparr>
        in effect (StartConnect cid)
             (st\<lparr>chats := (chats st)(cid \<mapsto> a), heap := (heap st)(a := chatData),
                 nextAddr := Suc a\<rparr>))"

section \<open>The reconnect policy: \<open>handleConnectionError\<close>\<close>

text \<open>
  The attempt count of a session starts at 0 and is changed by \<open>++\<close> and by the reset to
  0 only, so it is a natural number; \<open>Finite (real n)\<close> is its value as a Number. The
  test \<open>this.maxReconnectAttempts > 0\<close> is \<open>number_less (Finite 0) ...\<close>, and
  \<open>chatData.reconnectAttempts >= this.maxReconnectAttempts\<close> is \<open>number_le\<close> with the
  operands in the other order.
\<close>

definition handleConnectionError :: "jsstring \<Rightarrow> js_error \<Rightarrow> Client \<Rightarrow> Client" where
  "handleConnectionError cid error st =
     (case chats st cid of
        None \<Rightarrow> st
      | Some a \<Rightarrow>
          if \<not> running (heap st a) then st
          else
            let st1 = emit (EvConnectionError error) st in
            if number_less (Finite 0) (maxReconnectAttempts st1)
               \<and> number_le (maxReconnectAttempts st1)
                     (Finite (real (reconnectAttempts (heap st1 a))))
            then
              stop cid
                (emit (EvConnectionError (FailedToConnectAfter cid (maxReconnectAttempts st1))) st1)
            else
              let waitTime = timesPow2 (initialReconnectDelayMs st1)
                               (reconnectAttempts (heap st1 a));
                  finalWaitTime = Math_min waitTime (maxReconnectWaitMs st1);
                  st2 = modify a (\<lambda>c. c\<lparr>reconnectAttempts := reconnectAttempts c + 1\<rparr>) st1;
                  st3 = emit (EvReconnecting (reconnectAttempts (heap st2 a)) finalWaitTime) st2
              in effect (SetTimeout cid finalWaitTime) st3)"

section \<open>Frame classification: \<open>isPingEvent\<close> and \<open>handleMessage\<close>\<close>

text \<open>
  \<open>isPingEvent\<close>: \<open>payload\<close> is \<open>event?.[1]?.[0]?.[0]?.[0]?.[1]\<close>; the reads
  \<open>payload[0]\<close> and \<open>payload[1]\<close> come after \<open>Array.isArray(payload)\<close>, where a plain
  read and a safe one agree.
\<close>

definition isPingEvent :: "jsval \<Rightarrow> bool" where
  "isPingEvent event =
     (let payload = optPath event [1, 0, 0, 0, 1] in
      isArray payload \<and> optIndex payload 0 = JNull \<and> optIndex payload 1 = JNull
        \<and> isString (optPath payload [2, 0]))"

definition handleMessage_catch :: "js_error \<Rightarrow> jsstring \<Rightarrow> Client \<Rightarrow> Client" where
  "handleMessage_catch e jsonStr st =
     effect (ConsoleError (JSONWithError jsonStr)) (effect (ConsoleError (ErrorParsingJSON e)) st)"

text \<open>
  \<open>handleMessage\<close>: every statement of the \<open>try\<close> block that can throw has its branch to
  the \<open>catch\<close>, with the state as it is at that point.
\<close>

definition handleMessage :: "platform \<Rightarrow> jsstring \<Rightarrow> jsstring \<Rightarrow> int \<Rightarrow> Client \<Rightarrow> Client" where
  "handleMessage P jsonStr cid messageLength st =
     (case chats st cid of
        None \<Rightarrow> st
      | Some a \<Rightarrow>
          (case JSON_parse P jsonStr of
             None \<Rightarrow> handleMessage_catch SyntaxError jsonStr st
           | Some parsedMessage \<Rightarrow>
               (case getPath parsedMessage [0, 0] of
                  Inl e \<Rightarrow> handleMessage_catch e jsonStr st
                | Inr sequence \<Rightarrow>
                    let st1 = modify a (\<lambda>c. c\<lparr>AID := sequence\<rparr>) st;
                        credsTokenArr = optPath (optIndex parsedMessage 0) [1, 0, 2]
                    in
                    if sequence = JNum 1 \<and> isString (optIndex credsTokenArr 0) then
                      let st2 = modify a (\<lambda>c. c\<lparr>credsToken := theString (optIndex credsTokenArr 0)\<rparr>) st1
                      in emit (EvConnected (heap st2 a)) st2
                    else if isPingEvent (optIndex parsedMessage 0) then
                      (case getPath parsedMessage [0, 1, 0, 0, 0, 1, 2, 0] of
                         Inl e \<Rightarrow> handleMessage_catch e jsonStr st1
                       | Inr tms \<Rightarrow> emit (EvPing tms (heap st1 a)) st1)
                    else emit (EvData parsedMessage messageLength sequence (heap st1 a)) st1)))"

text \<open>The two effects of \<open>processBuffer\<close> in the client.\<close>

definition reportInvalidPrefix :: "jsstring \<Rightarrow> Client \<Rightarrow> Client" where
  "reportInvalidPrefix lengthPrefixStr st = effect (ConsoleError (InvalidLengthPrefix lengthPrefixStr)) st"

definition processBuffer_client :: "platform \<Rightarrow> jsstring \<Rightarrow> jsstring \<Rightarrow> Client \<Rightarrow> (jsstring \<times> Client) option" where
  "processBuffer_client P buffer cid st =
     processBuffer reportInvalidPrefix (\<lambda>messageJsonStr messageLength. handleMessage P messageJsonStr cid messageLength)
       buffer st"

section \<open>The handshake: \<open>chooseServer\<close> and \<open>getSID\<close>\<close>

text \<open>
  What a \<open>fetch\<close> gives: the promise rejects, or resolves to a response with \<open>ok\<close>,
  \<open>statusText\<close> and the text of the body. An asynchronous function of the source
  returns the error it throws, if any, and the state it leaves.
\<close>

datatype response = Rejected | Response bool jsstring jsstring

definition chooseServer ::
  "platform \<Rightarrow> jsstring \<Rightarrow> response \<Rightarrow> response \<Rightarrow> Client \<Rightarrow> js_error option \<times> Client" where
  "chooseServer P cid req optionsReq st =
     (case chats st cid of
        None \<Rightarrow> (Some ChatDataNotFound, st)
      | Some a \<Rightarrow>
          let st1 = effect (Fetch ChooseServerRequest) st in
          (case req of
             Rejected \<Rightarrow> (Some FetchRejected, st1)
           | Response ok statusText body \<Rightarrow>
               if \<not> ok then (Some (ChooseServerFailed statusText), st1)
               else
                 (case JSON_parse P body of
                    None \<Rightarrow> (Some SyntaxError, st1)
                  | Some data \<Rightarrow>
                      (case getIndex data 0 of
                         Inl e \<Rightarrow> (Some e, st1)
                       | Inr g \<Rightarrow>
                           let st2 = modify a (\<lambda>c. c\<lparr>gsessionid := g\<rparr>) st1;
                               st3 = emit (EvGsessoinId (gsessionid (heap st2 a))) st2;
                               rid = nextRid (heap st3 a);
                               st4 = modify a (\<lambda>c. c\<lparr>nextRid := nextRid c + 1\<rparr>) st3;
                               st5 = effect (Fetch (OptionsRequest rid)) st4
                           in (case optionsReq of
                                 Rejected \<Rightarrow> (Some FetchRejected, st5)
                               | Response ok' statusText' body' \<Rightarrow> (None, st5))))))"

definition NEWLINE :: code_unit where
  "NEWLINE = 0x0A"

definition getSID :: "platform \<Rightarrow> jsstring \<Rightarrow> response \<Rightarrow> Client \<Rightarrow> js_error option \<times> Client" where
  "getSID P cid resp st =
     (case chats st cid of
        None \<Rightarrow> (Some GsessionidNotFound, st)
      | Some a \<Rightarrow>
          if \<not> truthy (gsessionid (heap st a)) then (Some GsessionidNotFound, st)
          else
            let rid = nextRid (heap st a);
                st1 = modify a (\<lambda>c. c\<lparr>nextRid := nextRid c + 1\<rparr>) st;
                st2 = effect (Fetch (GetSIDRequest rid)) st1
            in
            (case resp of
               Rejected \<Rightarrow> (Some FetchRejected, st2)
             | Response ok statusText text \<Rightarrow>
                 if \<not> ok then (Some (GetSIDFailed statusText), st2)
                 else
                   let lines = split text NEWLINE in
                   if length lines < 2 then (Some InvalidGetSIDResponse, st2)
                   else
                     let aid = ToNumber P (JStr (lines ! 0)) in
                     (case JSON_parse P (lines ! 1) of
                        None \<Rightarrow> (Some SyntaxError, st2)
                      | Some sidData \<Rightarrow>
                          (case getPath sidData [0, 1] of
                             Inl e \<Rightarrow> (Some e, st2)
                           | Inr configData \<Rightarrow>
                               (case getIndex configData 1 of
                                  Inl e \<Rightarrow> (Some e, st2)
                                | Inr sid \<Rightarrow>
                                    if \<not> truthy sid then (Some CouldNotExtractSID, st2)
                                    else
                                      let st3 = modify a (\<lambda>c. c\<lparr>SID := sid\<rparr>) st2
                                      in (None,
                                          emit (EvSid
                                            \<lparr>rpc_rpcAid = aid,
                                             rpc_cuhnkIndex = optPath sidData [0, 0],
                                             rpc_command = optIndex configData 0,
                                             rpc_sid = sid,
                                             rpc_gsessionid = optIndex configData 2,
                                             rpc_version = optIndex configData 3,
                                             rpc_aid = optIndex configData 4,
                                             rpc_timeoutMs = optIndex configData 5\<rparr>) st3))))))"

section \<open>The stream: \<open>startCredentialRefresh\<close>, \<open>listen\<close>, \<open>connect\<close>\<close>

text \<open>
  \<open>startCredentialRefresh\<close> sets the interval timer once. The timer's callback sends the
  refresh request and touches no field of the session; it is not modelled.
\<close>

definition startCredentialRefresh :: "jsstring \<Rightarrow> Client \<Rightarrow> Client" where
  "startCredentialRefresh cid st =
     (case chats st cid of
        None \<Rightarrow> st
      | Some a \<Rightarrow>
          if refreshInterval (heap st a) then st
          else effect (SetInterval cid) (modify a (\<lambda>c. c\<lparr>refreshInterval := True\<rparr>) st))"

text \<open>
  What happens while \<open>listen\<close> waits in \<open>await reader.read()\<close>: the read resolves with
  a chunk, resolves with \<open>done\<close>, or rejects; before that, the application may call
  \<open>stop(chatId)\<close>. A stream is the list of these happenings in order; at its end the read
  is still pending. \<open>listen\<close> returns, throws, or is still waiting.
\<close>

datatype stream_item = Chunk "byte list" | Done | ReadRejected | ExternalStop

datatype listen_response = ListenRejected | ListenResponse bool jsstring "stream_item list option"

datatype outcome = Returned | Threw js_error | Pending

text \<open>
  The read loop. \<open>atHead\<close> tells whether control is at the head of the loop, where the
  registry is checked, or inside the pending read. \<open>None\<close>: \<open>processBuffer\<close> did not
  return.
\<close>

function (sequential) readLoop ::
  "platform \<Rightarrow> jsstring \<Rightarrow> bool \<Rightarrow> jsstring \<Rightarrow> stream_item list \<Rightarrow> Client \<Rightarrow> (outcome \<times> Client) option"
where
  "readLoop P cid True buffer items st =
     (if chats st cid = None then Some (Returned, effect ReaderCancel st)
      else (case items of
              [] \<Rightarrow> Some (Pending, st)
            | item # rest \<Rightarrow> readLoop P cid False buffer items st))"
| "readLoop P cid False buffer [] st = Some (Pending, st)"
| "readLoop P cid False buffer (ExternalStop # rest) st = readLoop P cid False buffer rest (stop cid st)"
| "readLoop P cid False buffer (Done # rest) st = Some (Threw StreamClosedByServer, st)"
| "readLoop P cid False buffer (ReadRejected # rest) st = Some (Threw FetchRejected, st)"
| "readLoop P cid False buffer (Chunk v # rest) st =
     (case processBuffer_client P (buffer @ TextDecoder_decode v) cid st of
        None \<Rightarrow> None
      | Some (buffer', st') \<Rightarrow> readLoop P cid True buffer' rest st')"
  by pat_completeness auto
termination
  by (relation "measure (\<lambda>(P, cid, atHead, buffer, items, st).
        2 * length items + (if atHead then 1 else 0))") auto

definition listen :: "platform \<Rightarrow> jsstring \<Rightarrow> listen_response \<Rightarrow> Client \<Rightarrow> (outcome \<times> Client) option" where
  "listen P cid resp st =
     (case chats st cid of
        None \<Rightarrow> Some (Threw SIDOrGsessionidNotFound, st)
      | Some a \<Rightarrow>
          if \<not> truthy (SID (heap st a)) \<or> \<not> truthy (gsessionid (heap st a))
          then Some (Threw SIDOrGsessionidNotFound, st)
          else
            let sentAID = AID (heap st a);
                st1 = modify a (\<lambda>c. c\<lparr>AID := increment P (AID c)\<rparr>) st;
                st2 = effect (Fetch (ListenRequest sentAID)) st1
            in
            (case resp of
               ListenRejected \<Rightarrow> Some (Threw FetchRejected, st2)
             | ListenResponse ok statusText body \<Rightarrow>
                 (case body of
                    None \<Rightarrow> Some (Threw (ListenRequestFailed statusText), st2)
                  | Some items \<Rightarrow>
                      if \<not> ok then Some (Threw (ListenRequestFailed statusText), st2)
                      else readLoop P cid True [] items (startCredentialRefresh cid st2))))"

text \<open>One run of \<open>connect\<close>, given what the network answers to its four requests.\<close>

record attempt =
  chooseServer_response :: response
  options_response :: response
  getSID_response :: response
  listen_response :: listen_response

definition connect :: "platform \<Rightarrow> jsstring \<Rightarrow> attempt \<Rightarrow> Client \<Rightarrow> Client option" where
  "connect P cid io st =
     (case chats st cid of
        None \<Rightarrow> Some st
      | Some a \<Rightarrow>
          if \<not> running (heap st a) then Some st
          else
            (case chooseServer P cid (chooseServer_response io) (options_response io) st of
               (Some e, st1) \<Rightarrow> Some (handleConnectionError cid e st1)
             | (None, st1) \<Rightarrow>
                 (case getSID P cid (getSID_response io) st1 of
                    (Some e, st2) \<Rightarrow> Some (handleConnectionError cid e st2)
                  | (None, st2) \<Rightarrow>
                      (case listen P cid (listen_response io) st2 of
                         None \<Rightarrow> None
                       | Some (Threw e, st3) \<Rightarrow> Some (handleConnectionError cid e st3)
                       | Some (Pending, st3) \<Rightarrow> Some st3
                       | Some (Returned, st3) \<Rightarrow>
                           Some (modify a (\<lambda>c. c\<lparr>reconnectAttempts := 0\<rparr>) st3)))))"

section \<open>Observers of the trace\<close>

fun waitOf :: "effect \<Rightarrow> number option" where
  "waitOf (SetTimeout cid w) = Some w"
| "waitOf e = None"

definition scheduledWaits :: "effect list \<Rightarrow> number list" where
  "scheduledWaits tr = List.map_filter waitOf tr"

fun eventOf :: "effect \<Rightarrow> event option" where
  "eventOf (Emit ev) = Some ev"
| "eventOf e = None"

definition events :: "effect list \<Rightarrow> event list" where
  "events tr = List.map_filter eventOf tr"

fun reconnectingOf :: "event \<Rightarrow> (nat \<times> number) option" where
  "reconnectingOf (EvReconnecting attempts waitTime) = Some (attempts, waitTime)"
| "reconnectingOf ev = None"

definition reconnectings :: "effect list \<Rightarrow> (nat \<times> number) list" where
  "reconnectings tr = List.map_filter reconnectingOf (events tr)"

fun connectedOf :: "event \<Rightarrow> jsstring option" where
  "connectedOf (EvConnected c) = Some (credsToken c)"
| "connectedOf ev = None"

definition connectedTokens :: "effect list \<Rightarrow> jsstring list" where
  "connectedTokens tr = List.map_filter connectedOf (events tr)"

fun partOf :: "event \<Rightarrow> jsstring option" where
  "partOf (EvPart c) = Some (chatId c)"
| "partOf ev = None"

definition parts :: "effect list \<Rightarrow> jsstring list" where
  "parts tr = List.map_filter partOf (events tr)"

section \<open>Example data\<close>

text \<open>
  A platform for the examples: \<open>JSON.parse\<close> is given by a table of texts and their
  values, and \<open>Number\<close> is right on the empty string and on strings of digits.
\<close>

definition digitsToNumber :: "jsstring \<Rightarrow> jsval" where
  "digitsToNumber s =
     (if s = [] then JNum 0
      else if list_all isDigit s
      then JNum (of_nat (foldl (\<lambda>acc c. 10 * acc + digitValue c) 0 s))
      else JNaN)"

definition tablePlatform :: "(jsstring \<times> jsval) list \<Rightarrow> platform" where
  "tablePlatform table =
     \<lparr>JSON_parse = map_of table, StringToNumber = digitsToNumber,
      ObjectToNumber = (\<lambda>v. JNaN)\<rparr>"

definition established_text :: jsstring where
  "established_text = ascii ''[[1,[[0,0,[\"tok\"]]]]]''"

definition established_frame :: jsval where
  "established_frame = JArr [JArr [JNum 1, JArr [JArr [JNum 0, JNum 0, JArr [JStr (ascii ''tok'')]]]]]"

definition data_text :: jsstring where
  "data_text = ascii ''[[2,[\"x\"]]]''"

definition data_frame :: jsval where
  "data_frame = JArr [JArr [JNum 2, JArr [JStr (ascii ''x'')]]]"

definition ping_text :: jsstring where
  "ping_text = ascii ''[[3,[[[[0,[null,null,[\"1700\"]]]]]]]]''"

definition ping_frame :: jsval where
  "ping_frame =
     JArr [JArr [JNum 3, JArr [JArr [JArr [JArr [JNum 0,
       JArr [JNull, JNull, JArr [JStr (ascii ''1700'')]]]]]]]]"

definition nearmiss_text :: jsstring where
  "nearmiss_text = ascii ''[[3,[[[[0,[null,null,1700]]]]]]]''"

definition nearmiss_frame :: jsval where
  "nearmiss_frame =
     JArr [JArr [JNum 3, JArr [JArr [JArr [JArr [JNum 0, JArr [JNull, JNull, JNum 1700]]]]]]]"

definition emptystring_text :: jsstring where
  "emptystring_text = ascii ''[[3,[[[[0,[null,null,\"\"]]]]]]]''"

definition emptystring_frame :: jsval where
  "emptystring_frame =
     JArr [JArr [JNum 3, JArr [JArr [JArr [JArr [JNum 0, JArr [JNull, JNull, JStr []]]]]]]]"

definition pingtoken_text :: jsstring where
  "pingtoken_text = ascii ''[[1,[[[[0,[null,null,[\"1700\"]]]],0,[\"tok\"]]]]]''"

definition pingtoken_frame :: jsval where
  "pingtoken_frame =
     JArr [JArr [JNum 1, JArr [JArr [
       JArr [JArr [JNum 0, JArr [JNull, JNull, JArr [JStr (ascii ''1700'')]]]],
       JNum 0,
       JArr [JStr (ascii ''tok'')]]]]]"

definition choose_text :: jsstring where
  "choose_text = ascii ''[\"gs1\",3]''"

definition choose_value :: jsval where
  "choose_value = JArr [JStr (ascii ''gs1''), JNum 3]"

definition sid_text :: jsstring where
  "sid_text = ascii ''[[0,[\"c\",\"sid1\",\"\",8,12,30000]]]''"

definition sid_value :: jsval where
  "sid_value =
     JArr [JArr [JNum 0, JArr [JStr (ascii ''c''), JStr (ascii ''sid1''), JStr [], JNum 8,
       JNum 12, JNum 30000]]]"

definition notnull_text :: jsstring where
  "notnull_text = ascii ''[[3,[[[[0,[7,8,[\"1700\"]]]]]]]]''"

definition notnull_frame :: jsval where
  "notnull_frame =
     JArr [JArr [JNum 3, JArr [JArr [JArr [JArr [JNum 0,
       JArr [JNum 7, JNum 8, JArr [JStr (ascii ''1700'')]]]]]]]]"

definition numberinside_text :: jsstring where
  "numberinside_text = ascii ''[[3,[[[[0,[null,null,[1700]]]]]]]]''"

definition numberinside_frame :: jsval where
  "numberinside_frame =
     JArr [JArr [JNum 3, JArr [JArr [JArr [JArr [JNum 0,
       JArr [JNull, JNull, JArr [JNum 1700]]]]]]]]"

definition plainobject_text :: jsstring where
  "plainobject_text = ascii ''[[3,[[[[0,{\"0\":null,\"1\":null,\"2\":[\"1700\"]}]]]]]]''"

definition plainobject_frame :: jsval where
  "plainobject_frame =
     JArr [JArr [JNum 3, JArr [JArr [JArr [JArr [JNum 0,
       JObj [(ascii ''0'', JNull), (ascii ''1'', JNull),
             (ascii ''2'', JArr [JStr (ascii ''1700'')])]]]]]]]"

definition emptysid_text :: jsstring where
  "emptysid_text = ascii ''[[0,[\"c\",\"\"]]]''"

definition emptysid_value :: jsval where
  "emptysid_value = JArr [JArr [JNum 0, JArr [JStr (ascii ''c''), JStr []]]]"

definition P0 :: platform where
  "P0 = tablePlatform
     [(established_text, established_frame), (data_text, data_frame), (ping_text, ping_frame),
      (nearmiss_text, nearmiss_frame), (emptystring_text, emptystring_frame),
      (pingtoken_text, pingtoken_frame), (notnull_text, notnull_frame),
      (numberinside_text, numberinside_frame), (plainobject_text, plainobject_frame),
      (choose_text, choose_value), (sid_text, sid_value), (emptysid_text, emptysid_value)]"

definition room :: jsstring where
  "room = ascii ''room''"

definition defaults :: ClientOptions where
  "defaults = \<lparr>opt_maxReconnectAttempts = None, opt_initialReconnectDelayMs = None,
     opt_maxReconnectWaitMs = None\<rparr>"

definition joined :: Client where
  "joined = join 50000 room (newClient defaults)"

text \<open>The same with \<open>maxReconnectAttempts: 0\<close>, that is without a limit on the attempts.\<close>

definition unlimited :: Client where
  "unlimited = join 50000 room (newClient (defaults\<lparr>opt_maxReconnectAttempts := Some (Finite 0)\<rparr>))"

text \<open>The joined session after five failures in a row (the default maximum is 5).\<close>

definition exhausted :: Client where
  "exhausted = (handleConnectionError room FetchRejected ^^ 5) joined"

text \<open>A network that is down, and one that answers the handshake and opens a stream.\<close>

definition network_down :: attempt where
  "network_down = \<lparr>chooseServer_response = Rejected, options_response = Rejected,
     getSID_response = Rejected, listen_response = ListenRejected\<rparr>"

definition network_up :: "stream_item list \<Rightarrow> attempt" where
  "network_up items =
     \<lparr>chooseServer_response = Response True (ascii ''OK'') choose_text,
      options_response = Response True (ascii ''OK'') [],
      getSID_response = Response True (ascii ''OK'') (ascii ''7'' @ [NEWLINE] @ sid_text),
      listen_response = ListenResponse True (ascii ''OK'') (Some items)\<rparr>"

text \<open>The joined session after the first step of the handshake on that network.\<close>

definition chosen :: Client where
  "chosen = snd (chooseServer P0 room (Response True (ascii ''OK'') choose_text)
                   (Response True (ascii ''OK'') []) joined)"

definition sid_response :: response where
  "sid_response = Response True (ascii ''OK'') (ascii ''7'' @ [NEWLINE] @ sid_text)"

text \<open>The JSON array \<open>["e-acute"]\<close> in UTF-8, \<open>e-acute\<close> being the bytes C3 A9.\<close>

definition eacute_payload :: "byte list" where
  "eacute_payload = ascii ''[\"'' @ [0xC3, 0xA9] @ ascii ''\"]''"

section \<open>Notions used in the statements about the framer\<close>

text \<open>
  \<open>handleAll\<close> is the handler called on each payload of a list in order, with its
  length; \<open>stalled tail ps\<close> says that \<open>tail\<close> is empty or a proper beginning of the
  first frame of \<open>ps\<close>.
\<close>

definition handleAll :: "(jsstring \<Rightarrow> int \<Rightarrow> 's \<Rightarrow> 's) \<Rightarrow> 's \<Rightarrow> jsstring list \<Rightarrow> 's" where
  "handleAll handle st ps = foldl (\<lambda>s p. handle p (int (length p)) s) st ps"

definition stalled :: "jsstring \<Rightarrow> jsstring list \<Rightarrow> bool" where
  "stalled tail ps \<longleftrightarrow> tail = [] \<or> (ps \<noteq> [] \<and> strict_prefix tail (encodeFrame (hd ps)))"

section \<open>Notions used in the statements about the lifecycle\<close>

text \<open>
  \<open>samePolicy st s\<close>: from \<open>st\<close> to \<open>s\<close> the registry, the configuration, the attempt
  counts and running flags of all session objects and the \<open>reconnecting\<close> events published
  are the same. \<open>givesUp st a\<close> is the test of the reconnect policy on the session object
  at \<open>a\<close>.
\<close>

definition samePolicy :: "Client \<Rightarrow> Client \<Rightarrow> bool" where
  "samePolicy st s \<longleftrightarrow>
     chats s = chats st
     \<and> maxReconnectAttempts s = maxReconnectAttempts st
     \<and> initialReconnectDelayMs s = initialReconnectDelayMs st
     \<and> maxReconnectWaitMs s = maxReconnectWaitMs st
     \<and> (\<forall>b. reconnectAttempts (heap s b) = reconnectAttempts (heap st b))
     \<and> (\<forall>b. running (heap s b) = running (heap st b))
     \<and> reconnectings (trace s) = reconnectings (trace st)"

definition givesUp :: "Client \<Rightarrow> addr \<Rightarrow> bool" where
  "givesUp st a \<longleftrightarrow>
     number_less (Finite 0) (maxReconnectAttempts st)
     \<and> number_le (maxReconnectAttempts st) (Finite (real (reconnectAttempts (heap st a))))"

text \<open>The joined session after one run of \<open>connect\<close> on the network that is down.\<close>

definition failed_once :: Client where
  "failed_once = handleConnectionError room FetchRejected (effect (Fetch ChooseServerRequest) joined)"

text \<open>That session after the handshake on the network that is up.\<close>

definition handshaken :: Client where
  "handshaken =
     snd (getSID P0 room sid_response
       (snd (chooseServer P0 room (Response True (ascii ''OK'') choose_text)
          (Response True (ascii ''OK'') []) failed_once)))"

text \<open>The frames of the example stream as bytes.\<close>

definition established_bytes :: "byte list" where
  "established_bytes = ascii ''[[1,[[0,0,[\"tok\"]]]]]''"

definition data_bytes :: "byte list" where
  "data_bytes = ascii ''[[2,[\"x\"]]]''"

definition example_stream :: "stream_item list" where
  "example_stream =
     [Chunk (encodeFrame established_bytes @ take 5 (encodeFrame data_bytes)),
      Chunk (drop 5 (encodeFrame data_bytes)),
      Done]"

section \<open>Properties of the framer\<close>

subsection \<open>Decimal numerals and the string primitives\<close>

lemma digitUnit_unat: "d < 10 \<Longrightarrow> unat (digitUnit d :: 16 word) = 48 + d"
  using unat_of_nat[of "48 + d", where 'a=16] by (simp add: digitUnit_def)

lemma digitUnit_isDigit: "d < 10 \<Longrightarrow> isDigit (digitUnit d)"
  by (simp add: isDigit_def word_le_nat_alt digitUnit_unat)

lemma digitUnit_value: "d < 10 \<Longrightarrow> digitValue (digitUnit d) = d"
  by (simp add: digitValue_def digitUnit_unat)

lemma isDigit_not_special:
  assumes "isDigit c"
  shows "c \<noteq> LBRACKET" "\<not> isStrWhiteSpaceChar c" "c \<noteq> 0x2D" "c \<noteq> 0x2B"
  using assms
  by (auto simp: isDigit_def LBRACKET_def isStrWhiteSpaceChar_def word_le_nat_alt)

lemma decimal_digits: "\<forall>c \<in> set (decimal n :: jsstring). isDigit c"
  by (induction n rule: decimal.induct) (subst decimal.simps, auto simp: digitUnit_isDigit)

lemma decimal_nonempty: "(decimal n :: 'a::len word list) \<noteq> []"
  by (subst decimal.simps) simp

lemma decimal_value:
  "foldl (\<lambda>acc c. 10 * acc + digitValue c) 0 (decimal n :: jsstring) = n"
  by (induction n rule: decimal.induct) (subst decimal.simps, auto simp: digitUnit_value)

lemma parseInt_decimal: "parseInt (decimal n) = Some (int n)"
proof -
  let ?d = "decimal n :: jsstring"
  have ne: "?d \<noteq> []" by (rule decimal_nonempty)
  have dg: "\<forall>c \<in> set ?d. isDigit c" by (rule decimal_digits)
  then have hd: "isDigit (hd ?d)" using ne by simp
  have dw: "dropWhile isStrWhiteSpaceChar ?d = ?d"
    using ne hd isDigit_not_special(2) by (cases ?d) auto
  have tw: "takeWhile isDigit ?d = ?d" using dg by (simp add: takeWhile_eq_all_conv)
  show ?thesis
    using ne isDigit_not_special(3,4)[OF hd]
    by (simp add: parseInt_def Let_def decimal_value dw tw)
qed

lemma parseInt_empty: "parseInt [] = None"
  by (simp add: parseInt_def)

lemma indexOf_absent: "c \<notin> set xs \<Longrightarrow> indexOf xs c = -1"
  by (induction xs) auto

lemma indexOf_first: "c \<notin> set xs \<Longrightarrow> indexOf (xs @ c # ys) c = int (length xs)"
  by (induction xs) (auto simp: Let_def)

lemma substring_prefix: "substring (xs @ ys) 0 (int (length xs)) = xs"
  by (simp add: substring_def Let_def min_def max_def)

lemma substring_from_append: "substring_from (xs @ ys) (int (length xs)) = ys"
  by (simp add: substring_from_def substring_def Let_def min_def max_def)

lemma substring_from_zero: "substring_from xs 0 = xs"
  by (simp add: substring_from_def substring_def Let_def min_def max_def)

lemma substring_middle:
  "substring (xs @ ys @ zs) (int (length xs)) (int (length xs) + int (length ys)) = ys"
  by (simp add: substring_def Let_def min_def max_def)

lemma LBRACKET_notin_decimal: "LBRACKET \<notin> set (decimal n :: jsstring)"
  using decimal_digits isDigit_not_special(1) by blast

lemma encodeFrame_nonempty: "encodeFrame p \<noteq> []"
  by (simp add: encodeFrame_def decimal_nonempty)

subsection \<open>One call of \<open>processBuffer\<close>\<close>

lemma processBuffer_no_bracket:
  "LBRACKET \<notin> set buffer \<Longrightarrow> processBuffer report handle buffer st = Some (buffer, st)"
  by (subst processBuffer.simps) (simp add: indexOf_absent)

lemma processBuffer_frame:
  assumes "wellFramed p"
  shows "processBuffer report handle (encodeFrame p @ rest) st
         = processBuffer report handle rest (handle p (int (length p)) st)"
proof -
  let ?d = "decimal (length p) :: jsstring"
  obtain p' where p: "p = LBRACKET # p'"
    using assms by (cases p) (auto simp: wellFramed_def)
  have buf: "encodeFrame p @ rest = ?d @ LBRACKET # (p' @ rest)"
    by (simp add: encodeFrame_def p)
  have idx: "indexOf (encodeFrame p @ rest) LBRACKET = int (length ?d)"
    unfolding buf by (rule indexOf_first[OF LBRACKET_notin_decimal])
  have pre: "substring (encodeFrame p @ rest) 0 (int (length ?d)) = ?d"
    unfolding buf by (rule substring_prefix)
  have msg: "substring (encodeFrame p @ rest) (int (length ?d)) (int (length ?d) + int (length p)) = p"
    using substring_middle[of ?d p rest] by (simp add: encodeFrame_def)
  have rst: "substring_from (encodeFrame p @ rest) (int (length ?d) + int (length p)) = rest"
    using substring_from_append[of "encodeFrame p" rest] by (simp add: encodeFrame_def)
  have len: "\<not> int (length (encodeFrame p @ rest)) < int (length ?d) + int (length p)"
    by (simp add: encodeFrame_def)
  show ?thesis
    by (subst processBuffer.simps) (simp only: idx Let_def pre parseInt_decimal msg rst len
        option.case if_False, simp)
qed

lemma processBuffer_partial:
  assumes "wellFramed p" and "strict_prefix buffer (encodeFrame p)"
  shows "processBuffer report handle buffer st = Some (buffer, st)"
proof -
  let ?d = "decimal (length p) :: jsstring"
  obtain suf where suf: "buffer @ suf = ?d @ p" "suf \<noteq> []"
    using assms(2) by (auto simp: strict_prefix_def prefix_def encodeFrame_def)
  from suf(1) obtain us where
    "(buffer = ?d @ us \<and> us @ suf = p) \<or> (buffer @ us = ?d \<and> suf = us @ p)"
    by (auto simp: append_eq_append_conv2)
  then consider (short) q where "buffer @ q = ?d"
    | (long) q where "buffer = ?d @ q" "q @ suf = p" "q \<noteq> []"
    by (cases "us = []") auto
  then show ?thesis
  proof cases
    case short
    then have "LBRACKET \<notin> set buffer"
      using LBRACKET_notin_decimal[of "length p"] by (metis Un_iff set_append)
    then show ?thesis by (rule processBuffer_no_bracket)
  next
    case long
    obtain q' where q: "q = LBRACKET # q'"
      using long(2,3) assms(1) by (cases q) (auto simp: wellFramed_def)
    have buf: "buffer = ?d @ LBRACKET # q'" by (simp add: long(1) q)
    have idx: "indexOf buffer LBRACKET = int (length ?d)"
      unfolding buf by (rule indexOf_first[OF LBRACKET_notin_decimal])
    have pre: "substring buffer 0 (int (length ?d)) = ?d"
      unfolding buf using substring_prefix[of ?d "LBRACKET # q'"] by simp
    have "length q < length p" using long(2) suf(2) by auto
    then have len: "int (length buffer) < int (length ?d) + int (length p)"
      by (simp add: long(1))
    show ?thesis
      by (subst processBuffer.simps) (simp only: idx Let_def pre parseInt_decimal len
          option.case if_True, simp)
  qed
qed

lemma processBuffer_leading_bracket:
  "processBuffer report handle (LBRACKET # rest) st = Some (LBRACKET # rest, report [] st)"
  by (subst processBuffer.simps)
     (simp add: substring_def substring_from_def Let_def parseInt_empty)

lemma processBuffer_invalid_prefix:
  assumes "LBRACKET \<notin> set pre" and "parseInt pre = None"
  shows "processBuffer report handle (pre @ LBRACKET # rest) st
         = Some (LBRACKET # rest, report pre st)"
proof -
  have idx: "indexOf (pre @ LBRACKET # rest) LBRACKET = int (length pre)"
    by (rule indexOf_first[OF assms(1)])
  have p: "substring (pre @ LBRACKET # rest) 0 (int (length pre)) = pre"
    by (rule substring_prefix)
  have r: "substring_from (pre @ LBRACKET # rest) (int (length pre)) = LBRACKET # rest"
    by (rule substring_from_append)
  show ?thesis
    by (subst processBuffer.simps) (simp only: idx Let_def p r assms(2) option.case, simp)
qed

subsection \<open>A buffer of whole frames and the beginning of one\<close>

lemma handleAll_simps [simp]:
  "handleAll handle st [] = st"
  "handleAll handle st (p # ps) = handleAll handle (handle p (int (length p)) st) ps"
  by (simp_all add: handleAll_def)

lemma handleAll_append:
  "handleAll handle st (ps @ qs) = handleAll handle (handleAll handle st ps) qs"
  by (simp add: handleAll_def)

lemma processBuffer_frames:
  assumes "\<forall>p \<in> set ps. wellFramed p"
    and "tail = [] \<or> (\<exists>p. wellFramed p \<and> strict_prefix tail (encodeFrame p))"
  shows "processBuffer report handle (concat (map encodeFrame ps) @ tail) st
         = Some (tail, handleAll handle st ps)"
  using assms(1)
proof (induction ps arbitrary: st)
  case Nil
  from assms(2) show ?case
  proof
    assume "tail = []"
    then show ?thesis by (simp add: processBuffer_no_bracket)
  next
    assume "\<exists>p. wellFramed p \<and> strict_prefix tail (encodeFrame p)"
    then show ?thesis using processBuffer_partial by auto
  qed
next
  case (Cons p ps)
  then show ?case by (simp add: processBuffer_frame)
qed

lemma split_frames:
  assumes "buf @ later = concat (map encodeFrame ps)"
  shows "\<exists>k tail. k \<le> length ps \<and> buf = concat (map encodeFrame (take k ps)) @ tail
           \<and> stalled tail (drop k ps)
           \<and> tail @ later = concat (map encodeFrame (drop k ps))"
  using assms
proof (induction ps arbitrary: buf)
  case Nil
  then show ?case by (simp add: stalled_def)
next
  case (Cons p ps)
  let ?rest = "concat (map encodeFrame ps)"
  from Cons.prems have eq: "buf @ later = encodeFrame p @ ?rest" by simp
  then consider (inside) q where "encodeFrame p = buf @ q" "q \<noteq> []"
    | (beyond) buf' where "buf = encodeFrame p @ buf'" "buf' @ later = ?rest"
    by (auto simp: append_eq_append_conv2) (metis append_Nil2)
  then show ?case
  proof cases
    case inside
    then have "strict_prefix buf (encodeFrame p)" by (auto simp: strict_prefix_def prefix_def)
    then have "stalled buf (drop 0 (p # ps))" by (simp add: stalled_def)
    then show ?thesis using eq
      by (intro exI[of _ 0] exI[of _ buf]) simp
  next
    case beyond
    from Cons.IH[OF beyond(2)] obtain k tail where k:
      "k \<le> length ps" "buf' = concat (map encodeFrame (take k ps)) @ tail"
      "stalled tail (drop k ps)" "tail @ later = concat (map encodeFrame (drop k ps))"
      by blast
    show ?thesis
      using k beyond(1) by (intro exI[of _ "Suc k"] exI[of _ tail]) simp
  qed
qed

lemma stalled_tail:
  assumes "stalled tail ps" "\<forall>p \<in> set ps. wellFramed p"
  shows "tail = [] \<or> (\<exists>p. wellFramed p \<and> strict_prefix tail (encodeFrame p))"
  using assms by (cases ps) (auto simp: stalled_def)

lemma feed_frames:
  assumes "\<forall>p \<in> set ps. wellFramed p"
    and "buffer @ concat (map decode chunks) = concat (map encodeFrame ps)"
    and "stalled buffer ps"
  shows "feed decode report handle chunks buffer st = Some ([], handleAll handle st ps)"
  using assms
proof (induction chunks arbitrary: buffer ps st)
  case Nil
  have "ps = []"
  proof (rule ccontr)
    assume ne: "ps \<noteq> []"
    then obtain p ps' where ps: "ps = p # ps'" by (cases ps) auto
    from Nil.prems(2) have b: "buffer = encodeFrame p @ concat (map encodeFrame ps')"
      by (simp add: ps)
    then have "buffer \<noteq> []" using encodeFrame_nonempty by auto
    with Nil.prems(3) have "strict_prefix buffer (encodeFrame p)" by (simp add: stalled_def ps)
    then have "length buffer < length (encodeFrame p)"
      by (metis prefix_length_less)
    with b show False by simp
  qed
  then show ?case using Nil.prems(2) by simp
next
  case (Cons v vs)
  let ?b = "buffer @ decode v"
  have "?b @ concat (map decode vs) = concat (map encodeFrame ps)"
    using Cons.prems(2) by simp
  from split_frames[OF this] obtain k tail where k:
    "k \<le> length ps" "?b = concat (map encodeFrame (take k ps)) @ tail"
    "stalled tail (drop k ps)" "tail @ concat (map decode vs) = concat (map encodeFrame (drop k ps))"
    by blast
  have wf_take: "\<forall>p \<in> set (take k ps). wellFramed p"
    using Cons.prems(1) by (meson in_set_takeD)
  have wf_drop: "\<forall>p \<in> set (drop k ps). wellFramed p"
    using Cons.prems(1) by (meson in_set_dropD)
  have step: "pump decode report handle buffer v st
              = Some (tail, handleAll handle st (take k ps))"
    unfolding pump_def k(2)
    by (rule processBuffer_frames[OF wf_take stalled_tail[OF k(3) wf_drop]])
  have "feed decode report handle vs tail (handleAll handle st (take k ps))
        = Some ([], handleAll handle (handleAll handle st (take k ps)) (drop k ps))"
    by (rule Cons.IH[OF wf_drop k(4) k(3)])
  moreover have "handleAll handle (handleAll handle st (take k ps)) (drop k ps)
                 = handleAll handle st ps"
    by (metis append_take_drop_id handleAll_append)
  ultimately show ?case by (simp add: step)
qed

text \<open>
  Chunk independence on the decoded text: whenever the decoded chunks, put together, are
  the frames of \<open>ps\<close>, every frame is dispatched once, in order, and the buffer ends empty,
  however the text is cut.
\<close>

lemma chunk_independence_decoded:
  assumes "\<forall>p \<in> set ps. wellFramed p"
    and "concat (map decode chunks) = concat (map encodeFrame ps)"
  shows "feed decode report handle chunks [] st = Some ([], handleAll handle st ps)"
  using feed_frames[OF assms(1), of "[]" decode chunks] assms(2) by (simp add: stalled_def)

lemma handleAll_record_frame:
  "map fst (handleAll record_frame acc ps) = map fst acc @ ps"
  by (induction ps arbitrary: acc) (simp_all add: record_frame_def)

lemma dispatched_decoded:
  assumes "\<forall>p \<in> set ps. wellFramed p"
    and "concat (map decode chunks) = concat (map encodeFrame ps)"
  shows "dispatched decode chunks = Some ps"
  by (simp add: dispatched_def chunk_independence_decoded[OF assms] handleAll_record_frame)

subsection \<open>Streams of ASCII bytes\<close>

lemma utf8_decode_ascii:
  "\<forall>b \<in> set bs. b < 0x80 \<Longrightarrow> utf8_decode 0 0 0 0x80 0xBF bs = bs"
  by (induction bs) auto

lemma TextDecoder_decode_ascii:
  assumes "\<forall>b \<in> set bytes. b < 0x80"
  shows "TextDecoder_decode bytes = map ucast bytes"
proof -
  have small: "\<forall>b \<in> set (map unat bytes). b < 0x80"
    using assms by (auto simp: word_less_nat_alt)
  have "stripBOM (map unat bytes) = map unat bytes"
    using small by (cases bytes) (auto simp: stripBOM_def)
  moreover have "concat (map utf16 (map unat bytes)) = map ucast bytes"
    using small by (induction bytes) (auto simp: utf16_def)
  ultimately show ?thesis
    by (simp add: TextDecoder_decode_def utf8_decode_ascii[OF small])
qed

lemma digitUnit_byte: "d < 10 \<Longrightarrow> unat (digitUnit d :: byte) = 48 + d"
  using unat_of_nat[of "48 + d", where 'a=8] by (simp add: digitUnit_def)

lemma ucast_digitUnit: "d < 10 \<Longrightarrow> ucast (digitUnit d :: byte) = (digitUnit d :: code_unit)"
proof -
  assume "d < 10"
  then have "d \<in> {0, 1, 2, 3, 4, 5, 6, 7, 8, 9}" by auto
  then show ?thesis by (auto simp: digitUnit_def)
qed

lemma ucast_decimal: "map ucast (decimal n :: byte list) = (decimal n :: jsstring)"
  by (induction n rule: decimal.induct)
     (subst decimal.simps, subst (2) decimal.simps, auto simp: ucast_digitUnit)

lemma decimal_byte_ascii: "\<forall>b \<in> set (decimal n :: byte list). b < 0x80"
  by (induction n rule: decimal.induct)
     (subst decimal.simps, auto simp: word_less_nat_alt digitUnit_byte)

lemma ucast_encodeFrame: "map ucast (encodeFrame p :: byte list) = encodeFrame (map ucast p :: jsstring)"
  by (simp add: encodeFrame_def ucast_decimal)

lemma ucast_wellFramed: "wellFramed (p :: byte list) \<Longrightarrow> wellFramed (map ucast p :: jsstring)"
  by (cases p) (auto simp: wellFramed_def LBRACKET_def)

lemma decoded_ascii_stream:
  fixes ps :: "byte list list"
  assumes asc: "\<forall>p \<in> set ps. \<forall>b \<in> set p. b < 0x80"
    and cut: "concat chunks = concat (map encodeFrame ps)"
  shows "concat (map TextDecoder_decode chunks)
         = concat (map encodeFrame (map (map ucast) ps :: jsstring list))"
proof -
  have stream: "\<forall>b \<in> set (concat (map encodeFrame ps)). b < 0x80"
    using asc decimal_byte_ascii by (auto simp: encodeFrame_def)
  then have each: "\<forall>c \<in> set chunks. \<forall>b \<in> set c. b < 0x80"
    using cut by (metis UN_I set_concat)
  have enc: "map ucast (concat (map encodeFrame ps))
             = concat (map encodeFrame (map (map ucast) ps :: jsstring list))"
    by (simp add: map_concat ucast_encodeFrame comp_def)
  have eqm: "map TextDecoder_decode chunks = map (map ucast) chunks"
    using each by (simp add: TextDecoder_decode_ascii)
  have "concat (map TextDecoder_decode chunks) = map ucast (concat chunks)"
    unfolding eqm by (simp add: map_concat)
  with cut enc show ?thesis by simp
qed

text \<open>
  Chunk independence on the bytes of an ASCII stream: when no payload has a byte above
  0x7F, cutting the stream at any offsets gives the payloads, as one piece does.
\<close>

lemma chunk_independence_ascii:
  fixes ps :: "byte list list"
  assumes wf: "\<forall>p \<in> set ps. wellFramed p"
    and asc: "\<forall>p \<in> set ps. \<forall>b \<in> set p. b < 0x80"
    and cut: "concat chunks = concat (map encodeFrame ps)"
  shows "dispatched TextDecoder_decode chunks = Some (map (map ucast) ps)"
    and "dispatched TextDecoder_decode [concat chunks] = Some (map (map ucast) ps)"
proof -
  have stream: "\<forall>b \<in> set (concat (map encodeFrame ps)). b < 0x80"
    using asc decimal_byte_ascii by (auto simp: encodeFrame_def)
  then have each: "\<forall>c \<in> set chunks. \<forall>b \<in> set c. b < 0x80"
    using cut by (metis UN_I set_concat)
  have wf': "\<forall>p \<in> set (map (map ucast) ps :: jsstring list). wellFramed p"
    using wf ucast_wellFramed by auto
  have enc: "map ucast (concat (map encodeFrame ps))
             = concat (map encodeFrame (map (map ucast) ps :: jsstring list))"
    by (simp add: map_concat ucast_encodeFrame comp_def)
  have eqm: "map TextDecoder_decode chunks = map (map ucast) chunks"
    using each by (simp add: TextDecoder_decode_ascii)
  have "concat (map TextDecoder_decode chunks) = map ucast (concat chunks)"
    unfolding eqm by (simp add: map_concat)
  with cut enc have 1: "concat (map TextDecoder_decode chunks)
      = concat (map encodeFrame (map (map ucast) ps :: jsstring list))" by simp
  show "dispatched TextDecoder_decode chunks = Some (map (map ucast) ps)"
    by (rule dispatched_decoded[OF wf' 1])
  have "TextDecoder_decode (concat chunks) = map ucast (concat chunks)"
    using stream cut by (simp add: TextDecoder_decode_ascii)
  with cut enc have 2: "concat (map TextDecoder_decode [concat chunks])
      = concat (map encodeFrame (map (map ucast) ps :: jsstring list))" by simp
  show "dispatched TextDecoder_decode [concat chunks] = Some (map (map ucast) ps)"
    by (rule dispatched_decoded[OF wf' 2])
qed

subsection \<open>Evaluation of the framer on given input\<close>

lemmas framer_eval =
  processBuffer.simps LBRACKET_def Let_def substring_def
  substring_from_def parseInt_def isStrWhiteSpaceChar_def isDigit_def digitValue_def
  no_report_def record_frame_def

lemmas decoder_eval = TextDecoder_decode_def stripBOM_def utf16_def

lemmas wire_eval = ascii_def encodeFrame_def decimal.simps digitUnit_def

lemma eacute_wellFramed: "wellFramed eacute_payload"
  by (simp add: eacute_payload_def wellFramed_def ascii_def LBRACKET_def)

lemma eacute_stream: "encodeFrame eacute_payload = [0x36, 0x5B, 0x22, 0xC3, 0xA9, 0x22, 0x5D]"
  by (simp add: eacute_payload_def wire_eval)

lemma decode_whole:
  "TextDecoder_decode [0x36, 0x5B, 0x22, 0xC3, 0xA9, 0x22, 0x5D]
   = [0x36, 0x5B, 0x22, 0xE9, 0x22, 0x5D]"
  by (simp add: decoder_eval)

lemma decode_head: "TextDecoder_decode [0x36, 0x5B, 0x22, 0xC3] = [0x36, 0x5B, 0x22, 0xFFFD]"
  by (simp add: decoder_eval)

lemma decode_tail: "TextDecoder_decode [0xA9, 0x22, 0x5D] = [0xFFFD, 0x22, 0x5D]"
  by (simp add: decoder_eval)

lemma frame_whole:
  "processBuffer no_report record_frame [0x36, 0x5B, 0x22, 0xE9, 0x22, 0x5D] []
   = Some ([0x36, 0x5B, 0x22, 0xE9, 0x22, 0x5D], [])"
  by (simp add: framer_eval)

lemma frame_head:
  "processBuffer no_report record_frame [0x36, 0x5B, 0x22, 0xFFFD] []
   = Some ([0x36, 0x5B, 0x22, 0xFFFD], [])"
  by (simp add: framer_eval)

lemma frame_damaged:
  "processBuffer no_report record_frame [0x36, 0x5B, 0x22, 0xFFFD, 0xFFFD, 0x22, 0x5D] []
   = Some ([], [([0x5B, 0x22, 0xFFFD, 0xFFFD, 0x22, 0x5D], 6)])"
  by (simp add: framer_eval)

lemma dispatched_whole: "dispatched TextDecoder_decode [encodeFrame eacute_payload] = Some []"
  by (simp add: dispatched_def pump_def eacute_stream decode_whole frame_whole)

lemma dispatched_cut:
  "dispatched TextDecoder_decode
       [take 4 (encodeFrame eacute_payload), drop 4 (encodeFrame eacute_payload)]
     = Some [[0x5B, 0x22, 0xFFFD, 0xFFFD, 0x22, 0x5D]]"
  by (simp add: dispatched_def pump_def eacute_stream decode_head decode_tail frame_head
      frame_damaged)

lemma damaged_text: "ascii ''[\"'' @ [0xFFFD, 0xFFFD] @ ascii ''\"]'' = [0x5B, 0x22, 0xFFFD, 0xFFFD, 0x22, 0x5D :: code_unit]"
  by (simp add: ascii_def)

text \<open>
  C1 fails on the code. The payload \<open>["e-acute"]\<close> is six bytes in UTF-8; its frame is
  \<open>6["e-acute"]\<close>. Cut after the fourth byte, inside the two-byte character, each half of
  the character is decoded on its own to U+FFFD and the framer dispatches a payload of six
  code units with two replacement characters. In one piece the character is decoded to one
  code unit, the text is one unit short of the announced length and nothing is dispatched.
\<close>

theorem C1_chunk_cut_inside_character:
  "wellFramed eacute_payload
   \<and> dispatched TextDecoder_decode [encodeFrame eacute_payload] = Some []
   \<and> dispatched TextDecoder_decode
       [take 4 (encodeFrame eacute_payload), drop 4 (encodeFrame eacute_payload)]
     = Some [ascii ''[\"'' @ [0xFFFD, 0xFFFD] @ ascii ''\"]'']"
  by (simp only: eacute_wellFramed dispatched_whole dispatched_cut damaged_text simp_thms)

lemma invalid_x: "LBRACKET \<notin> set (ascii ''x'' :: jsstring)" "parseInt (ascii ''x'') = None"
  by (simp_all add: ascii_def LBRACKET_def parseInt_def isStrWhiteSpaceChar_def isDigit_def)

lemma blocked_example:
  "processBuffer no_report record_frame (ascii ''x['' @ encodeFrame (ascii ''[1]'')) []
   = Some (ascii ''['' @ encodeFrame (ascii ''[1]''), [])"
proof -
  have "ascii ''x['' @ encodeFrame (ascii ''[1]'')
        = ascii ''x'' @ LBRACKET # encodeFrame (ascii ''[1]'' :: jsstring)"
    by (simp add: ascii_def LBRACKET_def)
  moreover have "ascii ''['' @ encodeFrame (ascii ''[1]'')
        = LBRACKET # encodeFrame (ascii ''[1]'' :: jsstring)"
    by (simp add: ascii_def LBRACKET_def)
  ultimately show ?thesis
    using processBuffer_invalid_prefix[OF invalid_x, of no_report record_frame
        "encodeFrame (ascii ''[1]'')" "[]"]
    by (simp add: no_report_def)
qed

lemma feed_leading_bracket:
  "feed decode report handle chunks (LBRACKET # rest) st
   = Some (LBRACKET # rest @ concat (map decode chunks), (report [] ^^ length chunks) st)"
proof (induction chunks arbitrary: rest st)
  case Nil
  then show ?case by simp
next
  case (Cons v vs)
  show ?case
    using Cons.IH[of "rest @ decode v" "report [] st"]
    by (simp add: pump_def processBuffer_leading_bracket funpow_swap1)
qed

text \<open>
  C2 fails on the code. On a prefix that is not a number the framer returns the buffer from
  the \<open>[\<close> on, without reading further: the frame \<open>3[1]\<close> that follows \<open>x[\<close> is not
  decoded. The buffer now begins with \<open>[\<close>, whose prefix is empty and not a number either:
  every later call reports and returns the buffer as it is, whatever is appended, and no
  frame is dispatched again.
\<close>

theorem C2_malformed_prefix_blocks_framer:
  "processBuffer no_report record_frame (ascii ''x['' @ encodeFrame (ascii ''[1]'')) []
     = Some (ascii ''['' @ encodeFrame (ascii ''[1]''), [])
   \<and> processBuffer report handle (LBRACKET # rest) st = Some (LBRACKET # rest, report [] st)
   \<and> feed decode report handle chunks (LBRACKET # rest) st
     = Some (LBRACKET # rest @ concat (map decode chunks), (report [] ^^ length chunks) st)"
  by (simp only: blocked_example processBuffer_leading_bracket feed_leading_bracket simp_thms)

section \<open>Properties of the frame classification\<close>

subsection \<open>Safe and throwing reads\<close>

lemma optPath_undefined: "optPath JUndefined path = JUndefined"
  by (induction path) simp_all

lemma optPath_nullish: "nullish v \<Longrightarrow> path \<noteq> [] \<Longrightarrow> optPath v path = JUndefined"
  by (cases path) (auto simp: nullish_def optPath_undefined)


lemma getPath_optPath:
  "path \<noteq> [] \<Longrightarrow> optPath v path \<noteq> JUndefined \<Longrightarrow> getPath v path = Inr (optPath v path)"
proof (induction path arbitrary: v)
  case Nil
  then show ?case by simp
next
  case (Cons i path)
  have nn: "\<not> nullish v"
    using Cons.prems(2) optPath_nullish[of v "i # path"] by auto
  show ?case
  proof (cases "path = []")
    case True
    then show ?thesis using nn by (simp add: getIndex_def)
  next
    case False
    then show ?thesis using nn Cons by (simp add: getIndex_def)
  qed
qed

lemma getPath_Inr_optPath: "getPath v path = Inr w \<Longrightarrow> optPath v path = w"
  by (induction path arbitrary: v) (auto simp: getIndex_def split: if_splits)

subsection \<open>The branches of \<open>handleMessage\<close>\<close>

lemma events_append: "events (xs @ ys) = events xs @ events ys"
  by (simp add: events_def List.map_filter_def)

lemma connectedTokens_append: "connectedTokens (xs @ ys) = connectedTokens xs @ connectedTokens ys"
  by (simp add: connectedTokens_def events_append List.map_filter_def)

lemma handleMessage_unregistered:
  "chats st cid = None \<Longrightarrow> handleMessage P jsonStr cid messageLength st = st"
  by (simp add: handleMessage_def)

lemma handleMessage_parse_failure:
  assumes "JSON_parse P jsonStr = None"
  shows "handleMessage P jsonStr cid messageLength st
         = (if chats st cid = None then st
            else st\<lparr>trace := trace st @ [ConsoleError (ErrorParsingJSON SyntaxError),
                                          ConsoleError (JSONWithError jsonStr)]\<rparr>)"
  using assms by (simp add: handleMessage_def handleMessage_catch_def effect_def split: option.split)

lemma handleMessage_established:
  assumes "chats st cid = Some a" and "JSON_parse P jsonStr = Some frame"
    and "optPath frame [0, 0] = JNum 1" and "optPath frame [0, 1, 0, 2, 0] = JStr token"
  shows "handleMessage P jsonStr cid messageLength st
         = emit (EvConnected ((heap st a)\<lparr>AID := JNum 1, credsToken := token\<rparr>))
             (modify a (\<lambda>c. c\<lparr>AID := JNum 1, credsToken := token\<rparr>) st)"
proof -
  have seq: "getPath frame [0, 0] = Inr (JNum 1)"
    using getPath_optPath[of "[0, 0]" frame] assms(3) by simp
  have tok: "optIndex (optPath (optIndex frame 0) [1, 0, 2]) 0 = JStr token"
    using assms(4) by simp
  show ?thesis
    using assms(1,2) seq tok
    by (simp add: handleMessage_def isString_def Let_def modify_def emit_def effect_def
        del: getPath.simps optPath.simps)
qed


lemma handleMessage_data:
  assumes "chats st cid = Some a" and "JSON_parse P jsonStr = Some frame"
    and "getPath frame [0, 0] = Inr sequence"
    and "\<not> (sequence = JNum 1 \<and> isString (optPath frame [0, 1, 0, 2, 0]))"
    and "\<not> isPingEvent (optIndex frame 0)"
  shows "handleMessage P jsonStr cid messageLength st
         = emit (EvData frame messageLength sequence ((heap st a)\<lparr>AID := sequence\<rparr>))
             (modify a (\<lambda>c. c\<lparr>AID := sequence\<rparr>) st)"
proof -
  have est: "\<not> (sequence = JNum 1 \<and> isString (optIndex (optPath (optIndex frame 0) [1, 0, 2]) 0))"
    using assms(4) by simp
  show ?thesis
    using assms(1,2,3,5) est
    by (auto simp add: handleMessage_def Let_def modify_def emit_def effect_def
        simp del: getPath.simps optPath.simps)
qed

lemma not_ping_number:
  assumes "optPath frame [0, 1, 0, 0, 0, 1] = JArr (JNull # JNull # JNum x # others)"
  shows "\<not> isPingEvent (optIndex frame 0)"
proof -
  have "optPath (optIndex frame 0) [1, 0, 0, 0, 1] = JArr (JNull # JNull # JNum x # others)"
    using assms by simp
  moreover have "optPath (JArr (JNull # JNull # JNum x # others)) [2, 0] = JUndefined"
    by simp
  ultimately show ?thesis by (simp add: isPingEvent_def isString_def Let_def del: optPath.simps)
qed

subsection \<open>The framer of the client\<close>

lemma processBuffer_client_frame:
  "wellFramed p \<Longrightarrow>
   processBuffer_client P (encodeFrame p @ rest) cid st
   = processBuffer_client P rest cid (handleMessage P p cid (int (length p)) st)"
  by (simp add: processBuffer_client_def processBuffer_frame)

lemma processBuffer_client_empty: "processBuffer_client P [] cid st = Some ([], st)"
  by (simp add: processBuffer_client_def processBuffer_no_bracket)

subsection \<open>The example data\<close>

lemma chats_joined: "chats joined room = Some 0"
  by (simp add: joined_def join_def newClient_def effect_def Let_def)

lemma trace_joined: "trace joined = [StartConnect room]"
  by (simp add: joined_def join_def newClient_def effect_def Let_def)

lemma heap_joined:
  "heap joined 0 = \<lparr>chatId = room, running = True, gsessionid = JStr [], nextRid = 50000,
     SID = JStr [], AID = JNum 0, credsToken = [], reconnectAttempts = 0,
     refreshInterval = False\<rparr>"
  by (simp add: joined_def join_def newClient_def effect_def Let_def)

lemmas text_defs = established_text_def data_text_def ping_text_def nearmiss_text_def
  emptystring_text_def pingtoken_text_def notnull_text_def numberinside_text_def
  plainobject_text_def choose_text_def sid_text_def emptysid_text_def

lemma parse_established: "JSON_parse P0 established_text = Some established_frame"
  by (simp add: P0_def tablePlatform_def)

lemma parse_data: "JSON_parse P0 data_text = Some data_frame"
  by (simp add: P0_def tablePlatform_def text_defs ascii_def)





lemma parse_choose: "JSON_parse P0 choose_text = Some choose_value"
  by (simp add: P0_def tablePlatform_def text_defs ascii_def)

lemma parse_sid: "JSON_parse P0 sid_text = Some sid_value"
  by (simp add: P0_def tablePlatform_def text_defs ascii_def)

lemma parse_emptysid: "JSON_parse P0 emptysid_text = Some emptysid_value"
  by (simp add: P0_def tablePlatform_def text_defs ascii_def)




lemma parse_garbage: "JSON_parse P0 (ascii ''[oops'') = None"
  by (simp add: P0_def tablePlatform_def text_defs ascii_def)

lemma wellFramed_texts:
  "wellFramed established_text" "wellFramed data_text" "wellFramed ping_text"
  "wellFramed (ascii ''[oops'' :: jsstring)"
  by (simp_all add: wellFramed_def text_defs ascii_def LBRACKET_def)


subsection \<open>Claims on \<open>handleMessage\<close>\<close>

lemma wellFramed_garbage: "wellFramed (ascii ''[oops'' :: jsstring)"
  by (simp add: wellFramed_def ascii_def LBRACKET_def)

lemma data_frame_facts:
  "getPath data_frame [0, 0] = Inr (JNum 2)"
  "\<not> (JNum 2 = JNum 1 \<and> isString (optPath data_frame [0, 1, 0, 2, 0]))"
  "\<not> isPingEvent (optIndex data_frame 0)"
  by (simp_all add: data_frame_def getIndex_def nullish_def isPingEvent_def isArray_def)

lemma length_data_text: "int (length data_text) = 11"
  by (simp add: data_text_def ascii_def)

text \<open>
  C10. A framed payload that \<open>JSON.parse\<close> rejects changes nothing but the console: the
  registry and every session object stay as they are, no event is published, two lines are
  written by \<open>console.error\<close> (none when the chat is not registered). The framer returns:
  with well-formed frames after the rejected one it hands each of them, in order and with
  its length, to \<open>handleMessage\<close> and leaves the buffer empty.
\<close>

theorem C10_parse_failure_skipped:
  assumes "JSON_parse P jsonStr = None"
  shows "handleMessage P jsonStr cid messageLength st
           = (if chats st cid = None then st
              else st\<lparr>trace := trace st @ [ConsoleError (ErrorParsingJSON SyntaxError),
                                            ConsoleError (JSONWithError jsonStr)]\<rparr>)
         \<and> heap (handleMessage P jsonStr cid messageLength st) = heap st
         \<and> chats (handleMessage P jsonStr cid messageLength st) = chats st
         \<and> events (trace (handleMessage P jsonStr cid messageLength st)) = events (trace st)
         \<and> (wellFramed jsonStr \<and> (\<forall>p \<in> set ps. wellFramed p) \<longrightarrow>
              processBuffer_client P (encodeFrame jsonStr @ concat (map encodeFrame ps)) cid st
              = Some ([], handleAll (\<lambda>m n. handleMessage P m cid n)
                            (handleMessage P jsonStr cid (int (length jsonStr)) st) ps))
         \<and> (wellFramed jsonStr \<longrightarrow>
              processBuffer_client P (encodeFrame jsonStr @ rest) cid st
              = processBuffer_client P rest cid
                  (handleMessage P jsonStr cid (int (length jsonStr)) st))"
proof -
  have frames: "processBuffer_client P (encodeFrame jsonStr @ concat (map encodeFrame ps)) cid st
      = Some ([], handleAll (\<lambda>m n. handleMessage P m cid n)
                    (handleMessage P jsonStr cid (int (length jsonStr)) st) ps)"
    if "wellFramed jsonStr" and "\<forall>p \<in> set ps. wellFramed p"
  proof -
    have "\<forall>p \<in> set (jsonStr # ps). wellFramed p" using that by simp
    from processBuffer_frames[OF this, where tail = "[]" and report = reportInvalidPrefix
        and handle = "\<lambda>m n. handleMessage P m cid n" and st = st]
    show ?thesis by (simp add: processBuffer_client_def)
  qed
  have unchanged: "heap (handleMessage P jsonStr cid messageLength st) = heap st"
    "chats (handleMessage P jsonStr cid messageLength st) = chats st"
    "events (trace (handleMessage P jsonStr cid messageLength st)) = events (trace st)"
    by (simp_all add: handleMessage_parse_failure[OF assms] events_append)
       (simp add: events_def)
  show ?thesis
    using handleMessage_parse_failure[OF assms, of cid messageLength st] unchanged frames
      processBuffer_client_frame[of jsonStr P rest cid st]
    by blast
qed

theorem C10_parse_failure_skipped_witness:
  "JSON_parse P0 (ascii ''[oops'') = None
   \<and> wellFramed (ascii ''[oops'' :: jsstring) \<and> wellFramed data_text
   \<and> chats joined room = Some 0
   \<and> handleMessage P0 (ascii ''[oops'') room 5 joined
       = joined\<lparr>trace := [StartConnect room, ConsoleError (ErrorParsingJSON SyntaxError),
                           ConsoleError (JSONWithError (ascii ''[oops''))]\<rparr>
   \<and> heap (handleMessage P0 (ascii ''[oops'') room 5 joined) = heap joined
   \<and> chats (handleMessage P0 (ascii ''[oops'') room 5 joined) = chats joined
   \<and> events (trace (handleMessage P0 (ascii ''[oops'') room 5 joined)) = []
   \<and> processBuffer_client P0 (encodeFrame (ascii ''[oops'') @ encodeFrame data_text) room joined
       = Some ([], joined\<lparr>heap := (heap joined)(0 := (heap joined 0)\<lparr>AID := JNum 2\<rparr>),
                          trace := [StartConnect room,
                                    ConsoleError (ErrorParsingJSON SyntaxError),
                                    ConsoleError (JSONWithError (ascii ''[oops'')),
                                    Emit (EvData data_frame 11 (JNum 2)
                                            ((heap joined 0)\<lparr>AID := JNum 2\<rparr>))]\<rparr>)
   \<and> map_option (\<lambda>(buffer, st). events (trace st))
        (processBuffer_client P0 (encodeFrame (ascii ''[oops'') @ encodeFrame data_text)
           room joined)
      = Some [EvData data_frame 11 (JNum 2) ((heap joined 0)\<lparr>AID := JNum 2\<rparr>)]"
proof -
  let ?bad = "ascii ''[oops'' :: jsstring"
  let ?st1 = "joined\<lparr>trace := [StartConnect room, ConsoleError (ErrorParsingJSON SyntaxError),
                                 ConsoleError (JSONWithError ?bad)]\<rparr>"
  note T = C10_parse_failure_skipped[OF parse_garbage, where cid = room and st = joined]
  have len: "int (length ?bad) = 5" by (simp add: ascii_def)
  have h: "handleMessage P0 ?bad room 5 joined = ?st1"
    using T[where messageLength = 5] by (simp add: chats_joined trace_joined)
  have u: "heap (handleMessage P0 ?bad room 5 joined) = heap joined"
    "chats (handleMessage P0 ?bad room 5 joined) = chats joined"
    "events (trace (handleMessage P0 ?bad room 5 joined)) = []"
    using T[where messageLength = 5]
    by (simp_all add: trace_joined events_def List.map_filter_def)
  have c1: "chats ?st1 room = Some 0" by (simp add: chats_joined)
  have d: "handleMessage P0 data_text room 11 ?st1
           = joined\<lparr>heap := (heap joined)(0 := (heap joined 0)\<lparr>AID := JNum 2\<rparr>),
                     trace := [StartConnect room,
                               ConsoleError (ErrorParsingJSON SyntaxError),
                               ConsoleError (JSONWithError ?bad),
                               Emit (EvData data_frame 11 (JNum 2)
                                       ((heap joined 0)\<lparr>AID := JNum 2\<rparr>))]\<rparr>"
    by (simp add: handleMessage_data[OF c1 parse_data data_frame_facts]
        emit_def effect_def modify_def)
  have wf: "wellFramed ?bad \<and> (\<forall>p \<in> set [data_text]. wellFramed p)"
    by (simp add: wellFramed_garbage wellFramed_texts)
  have "processBuffer_client P0 (encodeFrame ?bad @ concat (map encodeFrame [data_text])) room joined
        = Some ([], handleAll (\<lambda>m n. handleMessage P0 m room n)
                      (handleMessage P0 ?bad room (int (length ?bad)) joined) [data_text])"
    using T[where ps = "[data_text]" and messageLength = 5] wf by blast
  then have p: "processBuffer_client P0 (encodeFrame ?bad @ encodeFrame data_text) room joined
        = Some ([], joined\<lparr>heap := (heap joined)(0 := (heap joined 0)\<lparr>AID := JNum 2\<rparr>),
                     trace := [StartConnect room,
                               ConsoleError (ErrorParsingJSON SyntaxError),
                               ConsoleError (JSONWithError ?bad),
                               Emit (EvData data_frame 11 (JNum 2)
                                       ((heap joined 0)\<lparr>AID := JNum 2\<rparr>))]\<rparr>)"
    by (simp add: len length_data_text h d)
  have e: "map_option (\<lambda>(buffer, st). events (trace st))
        (processBuffer_client P0 (encodeFrame ?bad @ encodeFrame data_text) room joined)
      = Some [EvData data_frame 11 (JNum 2) ((heap joined 0)\<lparr>AID := JNum 2\<rparr>)]"
    by (simp add: p events_def List.map_filter_def)
  show ?thesis
    using parse_garbage wellFramed_garbage wellFramed_texts(2) chats_joined h u p e
    by blast
qed

text \<open>
  C4, as the code has it. A frame whose sequence is the number 1 and that has a string at
  \<open>frame[0][1][0][2][0]\<close> (position \<open>[1][0][2][0]\<close> of the pair \<open>[sequence, body]\<close>) makes
  the handler store the sequence and the string in the registered session and publish one
  \<open>connected\<close> event carrying the session: once for each such frame.
\<close>

theorem C4_session_established:
  assumes "chats st cid = Some a" and "JSON_parse P jsonStr = Some frame"
    and "optPath frame [0, 0] = JNum 1" and "optPath frame [0, 1, 0, 2, 0] = JStr token"
  shows "handleMessage P jsonStr cid messageLength st
           = emit (EvConnected ((heap st a)\<lparr>AID := JNum 1, credsToken := token\<rparr>))
               (modify a (\<lambda>c. c\<lparr>AID := JNum 1, credsToken := token\<rparr>) st)
         \<and> credsToken (heap (handleMessage P jsonStr cid messageLength st) a) = token
         \<and> trace (handleMessage P jsonStr cid messageLength st)
             = trace st @ [Emit (EvConnected (heap (handleMessage P jsonStr cid messageLength st) a))]
         \<and> connectedTokens (trace (handleMessage P jsonStr cid messageLength st))
             = connectedTokens (trace st) @ [token]"
  by (simp add: handleMessage_established[OF assms] connectedTokens_append)
     (simp add: emit_def effect_def modify_def connectedTokens_def events_def
        List.map_filter_def)

theorem C4_session_established_witness:
  "chats joined room = Some 0 \<and> JSON_parse P0 established_text = Some established_frame
   \<and> optPath established_frame [0, 0] = JNum 1
   \<and> optPath established_frame [0, 1, 0, 2, 0] = JStr (ascii ''tok'')
   \<and> (handleMessage P0 established_text room 21 joined
           = emit (EvConnected ((heap joined 0)\<lparr>AID := JNum 1, credsToken := ascii ''tok''\<rparr>))
               (modify 0 (\<lambda>c. c\<lparr>AID := JNum 1, credsToken := ascii ''tok''\<rparr>) joined)
         \<and> credsToken (heap (handleMessage P0 established_text room 21 joined) 0) = ascii ''tok''
         \<and> trace (handleMessage P0 established_text room 21 joined)
             = trace joined @ [Emit (EvConnected (heap (handleMessage P0 established_text room 21 joined) 0))]
         \<and> connectedTokens (trace (handleMessage P0 established_text room 21 joined))
             = connectedTokens (trace joined) @ [ascii ''tok''])"
proof -
  have s: "optPath established_frame [0, 0] = JNum 1"
    by (simp add: established_frame_def)
  have t: "optPath established_frame [0, 1, 0, 2, 0] = JStr (ascii ''tok'')"
    by (simp add: established_frame_def)
  show ?thesis
    by (rule conjI[OF chats_joined conjI[OF parse_established conjI[OF s conjI[OF t
          C4_session_established[OF chats_joined parse_established s t]]]]])
qed

text \<open>
  The claim C4 as stated fails: nothing in the handler limits the \<open>connected\<close> event to one
  for a connection. Two frames of that shape in the stream of one connection publish it
  twice.
\<close>

theorem C4_counterexample_connected_twice:
  "map_option (\<lambda>(buffer, st). connectedTokens (trace st))
     (processBuffer_client P0 (encodeFrame established_text @ encodeFrame established_text)
        room joined)
   = Some [ascii ''tok'', ascii ''tok'']"
proof -
  have s: "optPath established_frame [0, 0] = JNum 1"
    by (simp add: established_frame_def)
  have t: "optPath established_frame [0, 1, 0, 2, 0] = JStr (ascii ''tok'')"
    by (simp add: established_frame_def)
  let ?n = "int (length established_text)"
  let ?st1 = "handleMessage P0 established_text room ?n joined"
  have c1: "chats ?st1 room = Some 0"
    by (simp add: handleMessage_established[OF chats_joined parse_established s t]
        emit_def effect_def modify_def chats_joined)
  have t1: "connectedTokens (trace ?st1) = [ascii ''tok'']"
    by (simp add: handleMessage_established[OF chats_joined parse_established s t]
        emit_def effect_def modify_def trace_joined connectedTokens_def events_def)
  have t2: "connectedTokens (trace (handleMessage P0 established_text room ?n ?st1))
            = [ascii ''tok'', ascii ''tok'']"
    by (simp add: handleMessage_established[OF c1 parse_established s t] t1
        connectedTokens_append emit_def effect_def modify_def)
       (simp add: connectedTokens_def events_def)
  have "processBuffer_client P0 (encodeFrame established_text @ encodeFrame established_text @ []) room joined
        = Some ([], handleMessage P0 established_text room ?n ?st1)"
    by (simp only: processBuffer_client_frame[OF wellFramed_texts(1)] processBuffer_client_empty)
  then show ?thesis by (simp add: t2)
qed

lemma isPingEvent_tms:
  assumes "isPingEvent (optIndex frame 0)"
  shows "getPath frame [0, 1, 0, 0, 0, 1, 2, 0] = Inr (optPath frame [0, 1, 0, 0, 0, 1, 2, 0])"
proof -
  have "isString (optPath (optPath (optIndex frame 0) [1, 0, 0, 0, 1]) [2, 0])"
    using assms by (simp add: isPingEvent_def Let_def del: optPath.simps)
  then have "isString (optPath frame [0, 1, 0, 0, 0, 1, 2, 0])"
    by simp
  then have "optPath frame [0, 1, 0, 0, 0, 1, 2, 0] \<noteq> JUndefined"
    by (auto simp: isString_def simp del: optPath.simps)
  then show ?thesis
    using getPath_optPath[of "[0, 1, 0, 0, 0, 1, 2, 0]" frame] by simp
qed

lemma handleMessage_ping_general:
  assumes "chats st cid = Some a" and "JSON_parse P jsonStr = Some frame"
    and "getPath frame [0, 0] = Inr sequence"
    and "\<not> (sequence = JNum 1 \<and> isString (optPath frame [0, 1, 0, 2, 0]))"
    and "isPingEvent (optIndex frame 0)"
  shows "handleMessage P jsonStr cid messageLength st
         = emit (EvPing (optPath frame [0, 1, 0, 0, 0, 1, 2, 0]) ((heap st a)\<lparr>AID := sequence\<rparr>))
             (modify a (\<lambda>c. c\<lparr>AID := sequence\<rparr>) st)"
proof -
  have est: "\<not> (sequence = JNum 1 \<and> isString (optIndex (optPath (optIndex frame 0) [1, 0, 2]) 0))"
    using assms(4) by simp
  show ?thesis
    using assms(1,2,3,5) est isPingEvent_tms[OF assms(5)]
    by (auto simp add: handleMessage_def Let_def modify_def emit_def effect_def
        simp del: getPath.simps optPath.simps)
qed















section \<open>Properties of the registry and of the reconnect policy\<close>

lemma scheduledWaits_append: "scheduledWaits (xs @ ys) = scheduledWaits xs @ scheduledWaits ys"
  by (simp add: scheduledWaits_def List.map_filter_def)

lemma handleConnectionError_retry:
  assumes "chats st cid = Some a" and "running (heap st a)" and "\<not> givesUp st a"
  shows "handleConnectionError cid e st
         = st\<lparr>heap := (heap st)(a := (heap st a)\<lparr>reconnectAttempts := reconnectAttempts (heap st a) + 1\<rparr>),
              trace := trace st @
                [Emit (EvConnectionError e),
                 Emit (EvReconnecting (reconnectAttempts (heap st a) + 1)
                   (Math_min (timesPow2 (initialReconnectDelayMs st) (reconnectAttempts (heap st a)))
                      (maxReconnectWaitMs st))),
                 SetTimeout cid
                   (Math_min (timesPow2 (initialReconnectDelayMs st) (reconnectAttempts (heap st a)))
                      (maxReconnectWaitMs st))]\<rparr>"
  using assms
  by (auto simp add: handleConnectionError_def givesUp_def Let_def emit_def effect_def modify_def)

lemma handleConnectionError_give_up:
  assumes "chats st cid = Some a" and "running (heap st a)" and "givesUp st a"
  shows "handleConnectionError cid e st
         = st\<lparr>heap := (heap st)(a := (heap st a)\<lparr>running := False\<rparr>),
              trace := trace st @
                [Emit (EvConnectionError e),
                 Emit (EvConnectionError (FailedToConnectAfter cid (maxReconnectAttempts st)))]
                @ (if refreshInterval (heap st a) then [ClearInterval cid] else [])
                @ [Emit (EvPart ((heap st a)\<lparr>running := False\<rparr>))],
              chats := (chats st)(cid := None)\<rparr>"
  using assms
  by (auto simp add: handleConnectionError_def givesUp_def stop_def Let_def emit_def effect_def
      modify_def)

subsection \<open>The wait in exact arithmetic\<close>

text \<open>
  For a delay that is not negative, with fewer than 1024 attempts or a delay of at least 1,
  and a finite maximum (every double is below \<open>2 ^ 1024\<close>), the wait that the source
  computes in doubles is the exact \<open>min (d * 2 ^ n) w\<close>: the product is exact, or it is
  \<open>Infinity\<close> where the exact product is above every double, and then the minimum is the
  maximum wait in both.
\<close>

lemma wait_exact:
  assumes "0 \<le> d" and "1 \<le> d \<or> n < 1024" and "w < 2 ^ 1024"
  shows "Math_min (timesPow2 (Finite d) n) (Finite w) = Finite (min (d * 2 ^ n) w)"
proof (cases "d = 0")
  case True
  then have "n < 1024" using assms(2) by simp
  then show ?thesis using True by (simp add: timesPow2_def)
next
  case False
  then have pos: "0 < d" using assms(1) by simp
  show ?thesis
  proof (cases "n < 1024 \<and> \<bar>d\<bar> * 2 ^ n < 2 ^ 1024")
    case True
    then show ?thesis using pos by (simp add: timesPow2_def)
  next
    case False
    have big: "(2 :: real) ^ 1024 \<le> d * 2 ^ n"
    proof (cases "n < 1024")
      case True
      then show ?thesis using False pos by simp
    next
      case False
      then have "1 \<le> d" and "1024 \<le> n" using assms(2) by simp_all
      have "(2 :: real) ^ 1024 \<le> 2 ^ n"
        using \<open>1024 \<le> n\<close> by (intro power_increasing) simp_all
      also have "\<dots> \<le> d * 2 ^ n"
        using \<open>1 \<le> d\<close> by (simp add: mult_le_cancel_right1)
      finally show ?thesis .
    qed
    then have "w \<le> d * 2 ^ n" using assms(3) by linarith
    then have m: "min (d * 2 ^ n) w = w" by simp
    have "timesPow2 (Finite d) n = PosInfinity"
      using False pos by (auto simp add: timesPow2_def)
    then show ?thesis by (simp add: m)
  qed
qed

text \<open>
  Outside these settings the two differ: with a delay of 0 and 1024 attempts or more the
  source computes \<open>0 * Infinity\<close>, and the wait is \<open>NaN\<close>; with a negative delay it is
  \<open>-Infinity\<close>.
\<close>

lemma wait_not_a_number:
  "1024 \<le> n \<Longrightarrow> Math_min (timesPow2 (Finite 0) n) w = NaN"
  by (simp add: timesPow2_def)

lemma wait_negative_infinity:
  "1024 \<le> n \<Longrightarrow> d < 0 \<Longrightarrow> Math_min (timesPow2 (Finite d) n) (Finite w) = NegInfinity"
  by (simp add: timesPow2_def)

text \<open>
  C5. When the policy retries, the wait it schedules is
  \<open>Math.min(initialDelay * Math.pow(2, attempts), maxWait)\<close>, whatever the settings. For
  the settings above that is the number \<open>min (initialDelay * 2 ^ attempts) maxWait\<close>,
  which is never above \<open>maxWait\<close> and not smaller for the next attempt. With 1000 and
  30000 it is 1000, 2000, 4000, 8000, 16000, 30000 for the attempts 0 to 5.
\<close>

theorem C5_backoff_wait:
  assumes "chats st cid = Some a" and "running (heap st a)" and "\<not> givesUp st a"
  shows "scheduledWaits (trace (handleConnectionError cid e st))
           = scheduledWaits (trace st)
             @ [Math_min (timesPow2 (initialReconnectDelayMs st) (reconnectAttempts (heap st a)))
                  (maxReconnectWaitMs st)]
         \<and> (initialReconnectDelayMs st = Finite d \<and> maxReconnectWaitMs st = Finite w
              \<and> 0 \<le> d \<and> (1 \<le> d \<or> reconnectAttempts (heap st a) < 1024) \<and> w < 2 ^ 1024 \<longrightarrow>
            scheduledWaits (trace (handleConnectionError cid e st))
              = scheduledWaits (trace st)
                @ [Finite (min (d * 2 ^ reconnectAttempts (heap st a)) w)]
            \<and> min (d * 2 ^ reconnectAttempts (heap st a)) w \<le> w
            \<and> min (d * 2 ^ reconnectAttempts (heap st a)) w
                \<le> min (d * 2 ^ Suc (reconnectAttempts (heap st a))) w)
         \<and> (initialReconnectDelayMs st = Finite 1000 \<and> maxReconnectWaitMs st = Finite 30000
              \<and> reconnectAttempts (heap st a) \<le> 5 \<longrightarrow>
            scheduledWaits (trace (handleConnectionError cid e st))
            = scheduledWaits (trace st)
              @ [Finite ([1000, 2000, 4000, 8000, 16000, 30000] ! reconnectAttempts (heap st a))])"
proof -
  let ?n = "reconnectAttempts (heap st a)"
  have 1: "scheduledWaits (trace (handleConnectionError cid e st))
           = scheduledWaits (trace st)
             @ [Math_min (timesPow2 (initialReconnectDelayMs st) ?n) (maxReconnectWaitMs st)]"
    by (simp add: handleConnectionError_retry[OF assms] scheduledWaits_append)
       (simp add: scheduledWaits_def List.map_filter_def)
  have exact: "scheduledWaits (trace (handleConnectionError cid e st))
              = scheduledWaits (trace st) @ [Finite (min (d * 2 ^ ?n) w)]
            \<and> min (d * 2 ^ ?n) w \<le> w
            \<and> min (d * 2 ^ ?n) w \<le> min (d * 2 ^ Suc ?n) w"
    if "initialReconnectDelayMs st = Finite d" and "maxReconnectWaitMs st = Finite w"
      and "0 \<le> d" and "1 \<le> d \<or> ?n < 1024" and "w < 2 ^ 1024"
  proof -
    have "d * 2 ^ ?n \<le> d * 2 ^ Suc ?n"
      using that(3) by (intro mult_left_mono) simp_all
    then have mono: "min (d * 2 ^ ?n) w \<le> min (d * 2 ^ Suc ?n) w" by simp
    show ?thesis
      using 1 mono by (simp add: that(1,2) wait_exact[OF that(3,4,5)])
  qed
  have tab: "scheduledWaits (trace (handleConnectionError cid e st))
            = scheduledWaits (trace st)
              @ [Finite ([1000, 2000, 4000, 8000, 16000, 30000] ! ?n)]"
    if "initialReconnectDelayMs st = Finite 1000" and "maxReconnectWaitMs st = Finite 30000"
      and "?n \<le> 5"
  proof -
    have "?n \<in> {0, 1, 2, 3, 4, 5}" using that(3) by auto
    then have "min (1000 * 2 ^ ?n) (30000 :: real)
               = [1000, 2000, 4000, 8000, 16000, 30000] ! ?n"
      by auto
    moreover have "Math_min (timesPow2 (Finite 1000) ?n) (Finite 30000)
                   = Finite (min (1000 * 2 ^ ?n) 30000)"
      by (rule wait_exact) simp_all
    ultimately show ?thesis using 1 by (simp add: that(1,2))
  qed
  show ?thesis using 1 exact tab by blast
qed

lemma unlimited_facts:
  "chats unlimited room = Some 0" "running (heap unlimited 0)"
  "maxReconnectAttempts unlimited = Finite 0" "initialReconnectDelayMs unlimited = Finite 1000"
  "maxReconnectWaitMs unlimited = Finite 30000" "reconnectAttempts (heap unlimited 0) = 0"
  "trace unlimited = [StartConnect room]"
  by (simp_all add: unlimited_def join_def newClient_def effect_def Let_def defaults_def
      INITIAL_RECONNECT_DELAY_MS_def MAX_RECONNECT_WAIT_MS_def)

text \<open>
  Failures in a row on a client without a limit, with the default delays: the waits
  scheduled are those of the attempts in order.
\<close>

lemma failures_in_a_row:
  "chats ((handleConnectionError room e ^^ k) unlimited) room = Some 0
   \<and> running (heap ((handleConnectionError room e ^^ k) unlimited) 0)
   \<and> maxReconnectAttempts ((handleConnectionError room e ^^ k) unlimited) = Finite 0
   \<and> initialReconnectDelayMs ((handleConnectionError room e ^^ k) unlimited) = Finite 1000
   \<and> maxReconnectWaitMs ((handleConnectionError room e ^^ k) unlimited) = Finite 30000
   \<and> reconnectAttempts (heap ((handleConnectionError room e ^^ k) unlimited) 0) = k
   \<and> scheduledWaits (trace ((handleConnectionError room e ^^ k) unlimited))
       = map (\<lambda>n. Finite (min (1000 * 2 ^ n) 30000)) [0..<k]"
proof (induction k)
  case 0
  then show ?case
    by (simp add: unlimited_facts scheduledWaits_def List.map_filter_def)
next
  case (Suc k)
  let ?st = "(handleConnectionError room e ^^ k) unlimited"
  have r: "\<not> givesUp ?st 0"
    using Suc by (simp add: givesUp_def)
  have c: "chats ?st room = Some 0" and u: "running (heap ?st 0)" using Suc by simp_all
  have w: "Math_min (timesPow2 (Finite 1000) k) (Finite 30000)
           = Finite (min (1000 * 2 ^ k) 30000)"
    by (rule wait_exact) simp_all
  show ?case
    using Suc
    by (simp add: handleConnectionError_retry[OF c u r] scheduledWaits_append w)
       (simp add: scheduledWaits_def List.map_filter_def)
qed

lemma six_failures:
  "scheduledWaits (trace ((handleConnectionError room FetchRejected ^^ 6) unlimited))
   = [Finite 1000, Finite 2000, Finite 4000, Finite 8000, Finite 16000, Finite 30000]"
proof -
  have "[0..<6] = [0, 1, 2, 3, 4, 5 :: nat]" by (simp add: upt_rec)
  then show ?thesis using failures_in_a_row[where e = FetchRejected and k = 6] by simp
qed

theorem C5_backoff_wait_witness:
  "chats unlimited room = Some 0 \<and> running (heap unlimited 0) \<and> \<not> givesUp unlimited 0
   \<and> initialReconnectDelayMs unlimited = Finite 1000
   \<and> maxReconnectWaitMs unlimited = Finite 30000
   \<and> reconnectAttempts (heap unlimited 0) = 0
   \<and> (0 :: real) \<le> 1000 \<and> (1 :: real) \<le> 1000 \<and> (30000 :: real) < 2 ^ 1024
   \<and> scheduledWaits (trace (handleConnectionError room FetchRejected unlimited)) = [Finite 1000]
   \<and> scheduledWaits (trace ((handleConnectionError room FetchRejected ^^ 6) unlimited))
       = [Finite 1000, Finite 2000, Finite 4000, Finite 8000, Finite 16000, Finite 30000]"
proof -
  have h: "\<not> givesUp unlimited 0"
    by (simp add: givesUp_def unlimited_facts)
  have b: "(0 :: real) \<le> 1000 \<and> (1 :: real) \<le> 1000 \<and> (30000 :: real) < 2 ^ 1024"
    by simp
  have "scheduledWaits (trace (handleConnectionError room FetchRejected unlimited))
        = scheduledWaits (trace unlimited)
          @ [Finite (min (1000 * 2 ^ reconnectAttempts (heap unlimited 0)) 30000)]"
    using C5_backoff_wait[OF unlimited_facts(1,2) h, where e = FetchRejected and d = 1000
        and w = 30000] unlimited_facts(4,5) b
    by blast
  then have 1: "scheduledWaits (trace (handleConnectionError room FetchRejected unlimited))
        = [Finite 1000]"
    by (simp add: unlimited_facts scheduledWaits_def List.map_filter_def)
  show ?thesis
    using unlimited_facts(1,2,4,5,6) h b 1 six_failures by blast
qed

text \<open>
  C6. On a connection failure of a registered, running session: with a positive maximum
  that the attempt count has reached, the error and then the fatal error are published and
  the session is stopped (its timer cleared if set, \<open>part\<close> published, the entry removed);
  otherwise the error is published, the attempt count goes up by one, \<open>reconnecting\<close> is
  published with the new count and the wait that the source computes, and \<open>connect\<close> is
  scheduled after that wait. With a maximum that is not positive the session always stays
  registered. For a finite maximum \<open>m\<close> the test is \<open>0 < m\<close> and \<open>m \<le> attempts\<close>.
\<close>

theorem C6_give_up_or_retry:
  assumes "chats st cid = Some a" and "running (heap st a)"
  shows "(number_less (Finite 0) (maxReconnectAttempts st)
            \<and> number_le (maxReconnectAttempts st) (Finite (real (reconnectAttempts (heap st a))))
            \<longrightarrow>
            trace (handleConnectionError cid e st)
              = trace st @
                [Emit (EvConnectionError e),
                 Emit (EvConnectionError (FailedToConnectAfter cid (maxReconnectAttempts st)))]
                @ (if refreshInterval (heap st a) then [ClearInterval cid] else [])
                @ [Emit (EvPart ((heap st a)\<lparr>running := False\<rparr>))]
            \<and> chats (handleConnectionError cid e st) cid = None
            \<and> \<not> running (heap (handleConnectionError cid e st) a)
            \<and> scheduledWaits (trace (handleConnectionError cid e st)) = scheduledWaits (trace st))
         \<and> (\<not> (number_less (Finite 0) (maxReconnectAttempts st)
                 \<and> number_le (maxReconnectAttempts st)
                       (Finite (real (reconnectAttempts (heap st a))))) \<longrightarrow>
            trace (handleConnectionError cid e st)
              = trace st @
                [Emit (EvConnectionError e),
                 Emit (EvReconnecting (reconnectAttempts (heap st a) + 1)
                   (Math_min (timesPow2 (initialReconnectDelayMs st) (reconnectAttempts (heap st a)))
                      (maxReconnectWaitMs st))),
                 SetTimeout cid
                   (Math_min (timesPow2 (initialReconnectDelayMs st) (reconnectAttempts (heap st a)))
                      (maxReconnectWaitMs st))]
            \<and> chats (handleConnectionError cid e st) = chats st
            \<and> running (heap (handleConnectionError cid e st) a)
            \<and> reconnectAttempts (heap (handleConnectionError cid e st) a)
                = reconnectAttempts (heap st a) + 1)
         \<and> (\<not> number_less (Finite 0) (maxReconnectAttempts st) \<longrightarrow>
            chats (handleConnectionError cid e st) cid = Some a
            \<and> parts (trace (handleConnectionError cid e st)) = parts (trace st))
         \<and> (maxReconnectAttempts st = Finite m \<longrightarrow>
            (number_less (Finite 0) (maxReconnectAttempts st)
               \<and> number_le (maxReconnectAttempts st)
                     (Finite (real (reconnectAttempts (heap st a))))
             \<longleftrightarrow> 0 < m \<and> m \<le> real (reconnectAttempts (heap st a))))"
proof (cases "givesUp st a")
  case True
  then have g: "number_less (Finite 0) (maxReconnectAttempts st)"
    "number_le (maxReconnectAttempts st) (Finite (real (reconnectAttempts (heap st a))))"
    by (simp_all add: givesUp_def)
  have fin: "maxReconnectAttempts st = Finite m \<Longrightarrow> 0 < m \<and> m \<le> real (reconnectAttempts (heap st a))"
    using g by simp
  show ?thesis
    using g fin
    by (simp add: handleConnectionError_give_up[OF assms True] scheduledWaits_def
        List.map_filter_def)
next
  case False
  then have n: "\<not> (number_less (Finite 0) (maxReconnectAttempts st)
                 \<and> number_le (maxReconnectAttempts st)
                       (Finite (real (reconnectAttempts (heap st a)))))"
    by (simp add: givesUp_def)
  have fin: "maxReconnectAttempts st = Finite m \<Longrightarrow> \<not> (0 < m \<and> m \<le> real (reconnectAttempts (heap st a)))"
    using n by simp
  show ?thesis
    using n fin assms(1,2)
    by (simp add: handleConnectionError_retry[OF assms False] parts_def events_def
        List.map_filter_def)
qed

lemma retries:
  assumes "chats st cid = Some a" and "running (heap st a)"
    and "maxReconnectAttempts st = Finite m"
    and "m \<le> 0 \<or> real (reconnectAttempts (heap st a)) + real k \<le> m"
  shows "chats ((handleConnectionError cid e ^^ k) st) = chats st
         \<and> running (heap ((handleConnectionError cid e ^^ k) st) a)
         \<and> maxReconnectAttempts ((handleConnectionError cid e ^^ k) st) = maxReconnectAttempts st
         \<and> reconnectAttempts (heap ((handleConnectionError cid e ^^ k) st) a)
             = reconnectAttempts (heap st a) + k
         \<and> refreshInterval (heap ((handleConnectionError cid e ^^ k) st) a)
             = refreshInterval (heap st a)
         \<and> chatId (heap ((handleConnectionError cid e ^^ k) st) a) = chatId (heap st a)"
  using assms(4)
proof (induction k)
  case 0
  then show ?case using assms(2) by simp
next
  case (Suc k)
  let ?st = "(handleConnectionError cid e ^^ k) st"
  have ih: "chats ?st = chats st" "running (heap ?st a)"
    "maxReconnectAttempts ?st = maxReconnectAttempts st"
    "reconnectAttempts (heap ?st a) = reconnectAttempts (heap st a) + k"
    "refreshInterval (heap ?st a) = refreshInterval (heap st a)"
    "chatId (heap ?st a) = chatId (heap st a)"
    using Suc by auto
  have c: "chats ?st cid = Some a" using ih(1) assms(1) by simp
  have r: "\<not> givesUp ?st a"
    using Suc.prems ih(3,4) assms(3) by (auto simp add: givesUp_def)
  show ?case
    using ih by (simp add: handleConnectionError_retry[OF c ih(2) r])
qed

lemma joined_facts:
  "running (heap joined 0)" "maxReconnectAttempts joined = Finite 5"
  "reconnectAttempts (heap joined 0) = 0" "refreshInterval (heap joined 0) = False"
  "initialReconnectDelayMs joined = Finite 1000" "maxReconnectWaitMs joined = Finite 30000"
  by (simp_all add: joined_def join_def newClient_def effect_def Let_def defaults_def
      MAX_RECONNECT_ATTEMPTS_def INITIAL_RECONNECT_DELAY_MS_def MAX_RECONNECT_WAIT_MS_def)

lemma exhausted_facts:
  "chats exhausted room = Some 0" "running (heap exhausted 0)"
  "maxReconnectAttempts exhausted = Finite 5" "reconnectAttempts (heap exhausted 0) = 5"
  "refreshInterval (heap exhausted 0) = False"
  using retries[OF chats_joined joined_facts(1,2), of 5 FetchRejected]
  by (simp_all add: exhausted_def joined_facts chats_joined)

lemma first_wait: "Math_min (timesPow2 (Finite 1000) 0) (Finite 30000) = Finite 1000"
  by (simp add: timesPow2_def)

theorem C6_give_up_or_retry_witness:
  "chats exhausted room = Some 0 \<and> running (heap exhausted 0)
   \<and> maxReconnectAttempts exhausted = Finite 5
   \<and> number_less (Finite 0) (maxReconnectAttempts exhausted)
   \<and> number_le (maxReconnectAttempts exhausted)
        (Finite (real (reconnectAttempts (heap exhausted 0))))
   \<and> chats (handleConnectionError room StreamClosedByServer exhausted) room = None
   \<and> \<not> running (heap (handleConnectionError room StreamClosedByServer exhausted) 0)
   \<and> trace (handleConnectionError room StreamClosedByServer exhausted)
       = trace exhausted @
         [Emit (EvConnectionError StreamClosedByServer),
          Emit (EvConnectionError (FailedToConnectAfter room (Finite 5))),
          Emit (EvPart ((heap exhausted 0)\<lparr>running := False\<rparr>))]
   \<and> chats joined room = Some 0 \<and> running (heap joined 0)
   \<and> \<not> number_le (maxReconnectAttempts joined)
          (Finite (real (reconnectAttempts (heap joined 0))))
   \<and> trace (handleConnectionError room FetchRejected joined)
       = trace joined @
         [Emit (EvConnectionError FetchRejected), Emit (EvReconnecting 1 (Finite 1000)),
          SetTimeout room (Finite 1000)]
   \<and> reconnectAttempts (heap (handleConnectionError room FetchRejected joined) 0) = 1
   \<and> chats unlimited room = Some 0 \<and> running (heap unlimited 0)
   \<and> \<not> number_less (Finite 0) (maxReconnectAttempts unlimited)
   \<and> chats (handleConnectionError room FetchRejected unlimited) room = Some 0"
proof -
  have g: "number_less (Finite 0) (maxReconnectAttempts exhausted)"
    "number_le (maxReconnectAttempts exhausted)
       (Finite (real (reconnectAttempts (heap exhausted 0))))"
    by (simp_all add: exhausted_facts)
  have r: "\<not> number_le (maxReconnectAttempts joined)
          (Finite (real (reconnectAttempts (heap joined 0))))"
    by (simp add: joined_facts)
  have u: "\<not> number_less (Finite 0) (maxReconnectAttempts unlimited)"
    by (simp add: unlimited_facts)
  note E = C6_give_up_or_retry[OF exhausted_facts(1,2), where e = StreamClosedByServer and m = 5]
  note J = C6_give_up_or_retry[OF chats_joined joined_facts(1), where e = FetchRejected and m = 5]
  note U = C6_give_up_or_retry[OF unlimited_facts(1,2), where e = FetchRejected and m = 0]
  have e1: "chats (handleConnectionError room StreamClosedByServer exhausted) room = None"
    "\<not> running (heap (handleConnectionError room StreamClosedByServer exhausted) 0)"
    using E g by blast+
  have e2: "trace (handleConnectionError room StreamClosedByServer exhausted)
       = trace exhausted @
         [Emit (EvConnectionError StreamClosedByServer),
          Emit (EvConnectionError (FailedToConnectAfter room (Finite 5))),
          Emit (EvPart ((heap exhausted 0)\<lparr>running := False\<rparr>))]"
    using E g by (simp add: exhausted_facts)
  have j1: "trace (handleConnectionError room FetchRejected joined)
       = trace joined @
         [Emit (EvConnectionError FetchRejected), Emit (EvReconnecting 1 (Finite 1000)),
          SetTimeout room (Finite 1000)]"
    using J r by (simp add: joined_facts first_wait)
  have j2: "reconnectAttempts (heap (handleConnectionError room FetchRejected joined) 0) = 1"
    using J r by (simp add: joined_facts)
  have u1: "chats (handleConnectionError room FetchRejected unlimited) room = Some 0"
    using U u by blast
  show ?thesis
    using exhausted_facts(1,2,3) g e1 e2 chats_joined joined_facts(1) r j1 j2
      unlimited_facts(1,2) u u1
    by blast
qed

text \<open>
  C7. A second \<open>join\<close> of an id changes nothing, whatever the random number. The first
  one, on an id that is not registered, registers one new session: running, with the
  request id \<open>Math.floor(1E5 * Math.random())\<close>, zeroed counters and empty identifiers, and
  starts its lifecycle. A second \<open>stop\<close> of an id, and a \<open>stop\<close> of an id that is not
  registered, change nothing: no second \<open>part\<close> event.
\<close>

theorem C7_join_stop_idempotent:
  "join x2 cid (join x1 cid st) = join x1 cid st
   \<and> (chats st cid \<noteq> None \<longrightarrow> join x cid st = st)
   \<and> (chats st cid = None \<longrightarrow>
        chats (join x cid st) = (chats st)(cid \<mapsto> nextAddr st)
        \<and> heap (join x cid st) (nextAddr st)
            = \<lparr>chatId = cid, running = True, gsessionid = JStr [], nextRid = \<lfloor>x\<rfloor>,
               SID = JStr [], AID = JNum 0, credsToken = [], reconnectAttempts = 0,
               refreshInterval = False\<rparr>
        \<and> (\<forall>b. b \<noteq> nextAddr st \<longrightarrow> heap (join x cid st) b = heap st b)
        \<and> trace (join x cid st) = trace st @ [StartConnect cid])
   \<and> stop cid (stop cid st) = stop cid st
   \<and> (chats st cid = None \<longrightarrow> stop cid st = st)
   \<and> (chats st cid = Some a \<longrightarrow>
        parts (trace (stop cid st)) = parts (trace st) @ [chatId (heap st a)]
        \<and> parts (trace (stop cid (stop cid st))) = parts (trace st) @ [chatId (heap st a)]
        \<and> chats (stop cid st) = (chats st)(cid := None)
        \<and> \<not> running (heap (stop cid st) a))"
proof -
  have j2: "join x2 cid (join x1 cid st) = join x1 cid st"
    by (simp add: join_def effect_def Let_def)
  have s0: "chats (stop cid st) cid = None"
    by (simp add: stop_def emit_def effect_def modify_def Let_def split: option.split)
  have s2: "stop cid (stop cid st) = stop cid st"
    using s0 by (simp add: stop_def[of cid "stop cid st"])
  have p: "chats st cid = Some a \<Longrightarrow>
        parts (trace (stop cid st)) = parts (trace st) @ [chatId (heap st a)]
        \<and> chats (stop cid st) = (chats st)(cid := None)
        \<and> \<not> running (heap (stop cid st) a)"
    by (simp add: stop_def emit_def effect_def modify_def Let_def parts_def events_def
        List.map_filter_def)
  show ?thesis
    using j2 s2 p
    by (auto simp add: join_def stop_def effect_def Let_def)
qed

lemma fresh_facts: "chats (newClient defaults) room = None" "nextAddr (newClient defaults) = 0"
  "trace (newClient defaults) = []"
  by (simp_all add: newClient_def)

theorem C7_join_stop_idempotent_witness:
  "join 75000 room (join 50000 room (newClient defaults)) = join 50000 room (newClient defaults)
   \<and> chats joined room \<noteq> None \<and> join 75000 room joined = joined
   \<and> chats (newClient defaults) room = None
   \<and> heap (join 50000 room (newClient defaults)) 0
       = \<lparr>chatId = room, running = True, gsessionid = JStr [], nextRid = 50000,
          SID = JStr [], AID = JNum 0, credsToken = [], reconnectAttempts = 0,
          refreshInterval = False\<rparr>
   \<and> heap (join (199999 / 2) room (newClient defaults)) 0
       = \<lparr>chatId = room, running = True, gsessionid = JStr [], nextRid = 99999,
          SID = JStr [], AID = JNum 0, credsToken = [], reconnectAttempts = 0,
          refreshInterval = False\<rparr>
   \<and> trace (join 50000 room (newClient defaults)) = [StartConnect room]
   \<and> stop room (stop room joined) = stop room joined
   \<and> stop room (newClient defaults) = newClient defaults
   \<and> chats joined room = Some 0
   \<and> parts (trace (stop room joined)) = [room]
   \<and> parts (trace (stop room (stop room joined))) = [room]
   \<and> chats (stop room joined) room = None"
proof -
  have n: "chats joined room \<noteq> None" by (simp add: chats_joined)
  have f: "\<lfloor>50000 :: real\<rfloor> = 50000" "\<lfloor>199999 / 2 :: real\<rfloor> = 99999" by simp_all
  show ?thesis
    using C7_join_stop_idempotent[where ?x2.0 = 75000 and ?x1.0 = 50000 and cid = room
        and st = "newClient defaults" and x = 50000 and a = 0]
      C7_join_stop_idempotent[where cid = room and st = "newClient defaults"
        and x = "199999 / 2" and a = 0]
      C7_join_stop_idempotent[where cid = room and st = joined and x = 75000 and a = 0]
      n f fresh_facts chats_joined heap_joined trace_joined
    by (simp add: parts_def events_def List.map_filter_def)
qed

section \<open>Properties of the handshake\<close>

lemma split_nonempty: "split xs c \<noteq> []"
  by (induction xs) (auto split: list.splits)

lemma split_length: "length (split xs c) < 2 \<longleftrightarrow> c \<notin> set xs"
proof (induction xs)
  case Nil
  then show ?case by simp
next
  case (Cons x xs)
  show ?case
  proof (cases "x = c")
    case True
    then show ?thesis using split_nonempty[of xs c] by (cases "split xs c") auto
  next
    case False
    then show ?thesis using Cons split_nonempty[of xs c] by (cases "split xs c") auto
  qed
qed

lemma getPath_snoc:
  "getPath v (path @ [i]) = (case getPath v path of Inl e \<Rightarrow> Inl e | Inr w \<Rightarrow> getIndex w i)"
  by (induction path arbitrary: v) (auto split: sum.splits)

lemma getPath_011:
  "getPath v [0, Suc 0, Suc 0]
   = (case getPath v [0, Suc 0] of Inl e \<Rightarrow> Inl e | Inr w \<Rightarrow> getIndex w (Suc 0))"
  using getPath_snoc[of v "[0, Suc 0]" "Suc 0"] by simp

lemma getSID_response:
  assumes "chats st cid = Some a" and "truthy (gsessionid (heap st a))"
  shows "getSID P cid (Response ok statusText body) st
         = (let st2 = st\<lparr>heap := (heap st)(a := (heap st a)\<lparr>nextRid := nextRid (heap st a) + 1\<rparr>),
                         trace := trace st @ [Fetch (GetSIDRequest (nextRid (heap st a)))]\<rparr>
            in if \<not> ok then (Some (GetSIDFailed statusText), st2)
               else if NEWLINE \<notin> set body then (Some InvalidGetSIDResponse, st2)
               else (case JSON_parse P (split body NEWLINE ! 1) of
                       None \<Rightarrow> (Some SyntaxError, st2)
                     | Some sidData \<Rightarrow>
                         (case getPath sidData [0, 1, 1] of
                            Inl e \<Rightarrow> (Some e, st2)
                          | Inr sidv \<Rightarrow>
                              if \<not> truthy sidv then (Some CouldNotExtractSID, st2)
                              else (None,
                                st\<lparr>heap := (heap st)(a := (heap st a)
                                       \<lparr>nextRid := nextRid (heap st a) + 1, SID := sidv\<rparr>),
                                    trace := trace st @
                                      [Fetch (GetSIDRequest (nextRid (heap st a))),
                                       Emit (EvSid
                                         \<lparr>rpc_rpcAid = ToNumber P (JStr (split body NEWLINE ! 0)),
                                          rpc_cuhnkIndex = optPath sidData [0, 0],
                                          rpc_command = optPath sidData [0, 1, 0],
                                          rpc_sid = sidv,
                                          rpc_gsessionid = optPath sidData [0, 1, 2],
                                          rpc_version = optPath sidData [0, 1, 3],
                                          rpc_aid = optPath sidData [0, 1, 4],
                                          rpc_timeoutMs = optPath sidData [0, 1, 5]\<rparr>)]\<rparr>))))"
proof -
  have cfg: "\<And>sidData configData. getPath sidData [0, Suc 0] = Inr configData \<Longrightarrow>
      optIndex (optIndex sidData 0) (Suc 0) = configData"
    using getPath_Inr_optPath[where path = "[0, Suc 0]"] by simp
  show ?thesis
    using assms
    apply (simp add: getSID_def Let_def split_length getPath_011 modify_def emit_def effect_def
        del: getPath.simps optPath.simps split: option.split sum.split)
    apply (auto dest: cfg simp del: getPath.simps)
    done
qed


lemma getSID_rejected:
  assumes "chats st cid = Some a" and "truthy (gsessionid (heap st a))"
  shows "fst (getSID P cid Rejected st) = Some FetchRejected"
  using assms by (simp add: getSID_def Let_def)

lemma getSID_no_session:
  assumes "\<not> (\<exists>a. chats st cid = Some a \<and> truthy (gsessionid (heap st a)))"
  shows "getSID P cid resp st = (Some GsessionidNotFound, st)"
  using assms by (auto simp add: getSID_def split: option.split)

lemma chooseServer_ok:
  assumes "chats st cid = Some a" and "JSON_parse P body = Some data"
    and "getIndex data 0 = Inr g"
  shows "chooseServer P cid (Response True statusText body) (Response ok' statusText' body') st
         = (None,
            st\<lparr>heap := (heap st)(a := (heap st a)\<lparr>gsessionid := g, nextRid := nextRid (heap st a) + 1\<rparr>),
               trace := trace st @ [Fetch ChooseServerRequest, Emit (EvGsessoinId g),
                                   Fetch (OptionsRequest (nextRid (heap st a)))]\<rparr>)"
  using assms by (simp add: chooseServer_def Let_def modify_def emit_def effect_def)

lemma connect_routes:
  assumes "chats st cid = Some a" and "running (heap st a)"
  shows "(chooseServer P cid (chooseServer_response io) (options_response io) st = (Some e, st1)
            \<longrightarrow> connect P cid io st = Some (handleConnectionError cid e st1))
         \<and> (chooseServer P cid (chooseServer_response io) (options_response io) st = (None, st1)
              \<and> getSID P cid (getSID_response io) st1 = (Some e, st2)
            \<longrightarrow> connect P cid io st = Some (handleConnectionError cid e st2))
         \<and> (chooseServer P cid (chooseServer_response io) (options_response io) st = (None, st1)
              \<and> getSID P cid (getSID_response io) st1 = (None, st2)
              \<and> listen P cid (listen_response io) st2 = Some (Threw e, st3)
            \<longrightarrow> connect P cid io st = Some (handleConnectionError cid e st3))"
  using assms by (simp add: connect_def)

lemma split_two: "c \<notin> set xs \<Longrightarrow> c \<notin> set ys \<Longrightarrow> split (xs @ c # ys) c = [xs, ys]"
proof (induction xs)
  case Nil
  have "split ys c = [ys]" using Nil(2) by (induction ys) auto
  then show ?case by simp
next
  case (Cons x xs)
  then show ?case by auto
qed

lemma chosen_eq:
  "chosen = joined\<lparr>heap := (heap joined)(0 := (heap joined 0)\<lparr>gsessionid := JStr (ascii ''gs1''), nextRid := 50001\<rparr>),
                   trace := [StartConnect room, Fetch ChooseServerRequest,
                             Emit (EvGsessoinId (JStr (ascii ''gs1''))),
                             Fetch (OptionsRequest 50000)]\<rparr>"
proof -
  have g: "getIndex choose_value 0 = Inr (JStr (ascii ''gs1''))"
    by (simp add: choose_value_def getIndex_def nullish_def)
  show ?thesis
    by (simp add: chosen_def chooseServer_ok[OF chats_joined parse_choose g] trace_joined
        heap_joined)
qed

lemma chosen_facts:
  "chats chosen room = Some 0" "truthy (gsessionid (heap chosen 0))"
  "running (heap chosen 0)" "AID (heap chosen 0) = JNum 0" "nextRid (heap chosen 0) = 50001"
  by (simp_all add: chosen_eq chats_joined heap_joined ascii_def)

lemma sid_lines:
  "NEWLINE \<in> set (ascii ''7'' @ [NEWLINE] @ sid_text)"
  "split (ascii ''7'' @ [NEWLINE] @ sid_text) NEWLINE ! 0 = ascii ''7''"
  "split (ascii ''7'' @ [NEWLINE] @ sid_text) NEWLINE ! 1 = sid_text"
proof -
  have a: "NEWLINE \<notin> set (ascii ''7'' :: jsstring)" by (simp add: ascii_def NEWLINE_def)
  have b: "NEWLINE \<notin> set sid_text" by (simp add: sid_text_def ascii_def NEWLINE_def)
  have "split (ascii ''7'' @ NEWLINE # sid_text) NEWLINE = [ascii ''7'', sid_text]"
    by (rule split_two[OF a b])
  then show "split (ascii ''7'' @ [NEWLINE] @ sid_text) NEWLINE ! 0 = ascii ''7''"
    "split (ascii ''7'' @ [NEWLINE] @ sid_text) NEWLINE ! 1 = sid_text" by simp_all
  show "NEWLINE \<in> set (ascii ''7'' @ [NEWLINE] @ sid_text)" by simp
qed

lemma sid_value_path: "getPath sid_value [0, 1, 1] = Inr (JStr (ascii ''sid1''))"
  "truthy (JStr (ascii ''sid1''))"
  by (simp_all add: sid_value_def getIndex_def nullish_def ascii_def)

lemma ack_number: "ToNumber P0 (JStr (ascii ''7'')) = JNum 7"
  by (simp add: ToNumber_def P0_def tablePlatform_def digitsToNumber_def ascii_def isDigit_def
      digitValue_def)

text \<open>
  C9, as the code has it. \<open>getSID\<close> throws when the session is not registered or has no
  server session id, when the request is rejected, on a non-success response, on a body
  without a newline (fewer than two lines), when the second line is not JSON, when the
  decoded value has no \<open>[0][1]\<close> to read index 1 of, and when the \<open>sid\<close> read there is
  falsy (the empty string among others); in every other case it returns. Every throw is
  caught by \<open>connect\<close> and passed with the state to \<open>handleConnectionError\<close>. On success
  the \<open>sid\<close> is stored and the request id goes up by one; the acknowledgment number is
  carried by the \<open>sid\<close> event only, and \<open>AID\<close> stays as it was.
\<close>

theorem C9_getSID_outcomes:
  "(\<not> (\<exists>a. chats st cid = Some a \<and> truthy (gsessionid (heap st a))) \<longrightarrow>
      getSID P cid resp st = (Some GsessionidNotFound, st))
   \<and> (chats st cid = Some a \<and> truthy (gsessionid (heap st a)) \<longrightarrow>
      fst (getSID P cid Rejected st) = Some FetchRejected
      \<and> fst (getSID P cid (Response False statusText body) st) = Some (GetSIDFailed statusText)
      \<and> (NEWLINE \<notin> set body \<longrightarrow>
           fst (getSID P cid (Response True statusText body) st) = Some InvalidGetSIDResponse)
      \<and> (NEWLINE \<in> set body \<and> JSON_parse P (split body NEWLINE ! 1) = None \<longrightarrow>
           fst (getSID P cid (Response True statusText body) st) = Some SyntaxError)
      \<and> (NEWLINE \<in> set body \<and> JSON_parse P (split body NEWLINE ! 1) = Some sidData
           \<and> getPath sidData [0, 1, 1] = Inl e \<longrightarrow>
           fst (getSID P cid (Response True statusText body) st) = Some e)
      \<and> (NEWLINE \<in> set body \<and> JSON_parse P (split body NEWLINE ! 1) = Some sidData
           \<and> getPath sidData [0, 1, 1] = Inr sidv \<and> \<not> truthy sidv \<longrightarrow>
           fst (getSID P cid (Response True statusText body) st) = Some CouldNotExtractSID)
      \<and> (NEWLINE \<in> set body \<and> JSON_parse P (split body NEWLINE ! 1) = Some sidData
           \<and> getPath sidData [0, 1, 1] = Inr sidv \<and> truthy sidv \<longrightarrow>
           fst (getSID P cid (Response True statusText body) st) = None
           \<and> heap (snd (getSID P cid (Response True statusText body) st))
               = (heap st)(a := (heap st a)\<lparr>nextRid := nextRid (heap st a) + 1, SID := sidv\<rparr>)
           \<and> AID (heap (snd (getSID P cid (Response True statusText body) st)) a) = AID (heap st a)
           \<and> events (trace (snd (getSID P cid (Response True statusText body) st)))
               = events (trace st) @
                 [EvSid \<lparr>rpc_rpcAid = ToNumber P (JStr (split body NEWLINE ! 0)),
                         rpc_cuhnkIndex = optPath sidData [0, 0],
                         rpc_command = optPath sidData [0, 1, 0],
                         rpc_sid = sidv,
                         rpc_gsessionid = optPath sidData [0, 1, 2],
                         rpc_version = optPath sidData [0, 1, 3],
                         rpc_aid = optPath sidData [0, 1, 4],
                         rpc_timeoutMs = optPath sidData [0, 1, 5]\<rparr>]))
   \<and> (chats st0 cid = Some a0 \<and> running (heap st0 a0)
        \<and> chooseServer P cid (chooseServer_response io) (options_response io) st0 = (None, st1)
        \<and> getSID P cid (getSID_response io) st1 = (Some e', st2) \<longrightarrow>
      connect P cid io st0 = Some (handleConnectionError cid e' st2))"
proof (intro conjI impI)
  assume "\<not> (\<exists>a. chats st cid = Some a \<and> truthy (gsessionid (heap st a)))"
  then show "getSID P cid resp st = (Some GsessionidNotFound, st)"
    by (rule getSID_no_session)
next
  assume "chats st0 cid = Some a0 \<and> running (heap st0 a0)
        \<and> chooseServer P cid (chooseServer_response io) (options_response io) st0 = (None, st1)
        \<and> getSID P cid (getSID_response io) st1 = (Some e', st2)"
  then show "connect P cid io st0 = Some (handleConnectionError cid e' st2)"
    using connect_routes[of st0 cid a0 P io] by blast
next
  assume r: "chats st cid = Some a \<and> truthy (gsessionid (heap st a))"
  then have c: "chats st cid = Some a" and g: "truthy (gsessionid (heap st a))" by simp_all
  note resp = getSID_response[OF c g, of P _ statusText body]
  show "fst (getSID P cid Rejected st) = Some FetchRejected"
    by (rule getSID_rejected[OF c g])
  show "fst (getSID P cid (Response False statusText body) st) = Some (GetSIDFailed statusText)"
    by (simp add: resp Let_def)
  {
    assume "NEWLINE \<notin> set body"
    then show "fst (getSID P cid (Response True statusText body) st) = Some InvalidGetSIDResponse"
      by (simp add: resp Let_def)
  }
  {
    assume "NEWLINE \<in> set body \<and> JSON_parse P (split body NEWLINE ! 1) = None"
    then show "fst (getSID P cid (Response True statusText body) st) = Some SyntaxError"
      by (simp add: resp Let_def del: getPath.simps)
  }
  {
    assume "NEWLINE \<in> set body \<and> JSON_parse P (split body NEWLINE ! 1) = Some sidData
           \<and> getPath sidData [0, 1, 1] = Inl e"
    then show "fst (getSID P cid (Response True statusText body) st) = Some e"
      by (simp add: resp Let_def del: getPath.simps)
  }
  {
    assume "NEWLINE \<in> set body \<and> JSON_parse P (split body NEWLINE ! 1) = Some sidData
           \<and> getPath sidData [0, 1, 1] = Inr sidv \<and> \<not> truthy sidv"
    then show "fst (getSID P cid (Response True statusText body) st) = Some CouldNotExtractSID"
      by (simp add: resp Let_def del: getPath.simps)
  }
  {
    assume ok: "NEWLINE \<in> set body \<and> JSON_parse P (split body NEWLINE ! 1) = Some sidData
           \<and> getPath sidData [0, 1, 1] = Inr sidv \<and> truthy sidv"
    then show "fst (getSID P cid (Response True statusText body) st) = None"
      by (simp add: resp Let_def del: getPath.simps)
    from ok show "heap (snd (getSID P cid (Response True statusText body) st))
               = (heap st)(a := (heap st a)\<lparr>nextRid := nextRid (heap st a) + 1, SID := sidv\<rparr>)"
      by (simp add: resp Let_def del: getPath.simps optPath.simps)
    from ok show "AID (heap (snd (getSID P cid (Response True statusText body) st)) a) = AID (heap st a)"
      by (simp add: resp Let_def del: getPath.simps optPath.simps)
    from ok show "events (trace (snd (getSID P cid (Response True statusText body) st)))
               = events (trace st) @
                 [EvSid \<lparr>rpc_rpcAid = ToNumber P (JStr (split body NEWLINE ! 0)),
                         rpc_cuhnkIndex = optPath sidData [0, 0],
                         rpc_command = optPath sidData [0, 1, 0],
                         rpc_sid = sidv,
                         rpc_gsessionid = optPath sidData [0, 1, 2],
                         rpc_version = optPath sidData [0, 1, 3],
                         rpc_aid = optPath sidData [0, 1, 4],
                         rpc_timeoutMs = optPath sidData [0, 1, 5]\<rparr>]"
      by (simp add: resp Let_def events_append del: getPath.simps optPath.simps)
         (simp add: events_def List.map_filter_def)
  }
qed


lemma other_lines:
  "NEWLINE \<in> set (ascii ''7'' @ [NEWLINE] @ ascii ''oops'')"
  "split (ascii ''7'' @ [NEWLINE] @ ascii ''oops'') NEWLINE ! 1 = ascii ''oops''"
  "NEWLINE \<in> set (ascii ''7'' @ [NEWLINE] @ emptysid_text)"
  "split (ascii ''7'' @ [NEWLINE] @ emptysid_text) NEWLINE ! 1 = emptysid_text"
  "NEWLINE \<notin> set (ascii ''7'' :: jsstring)"
proof -
  have a: "NEWLINE \<notin> set (ascii ''7'' :: jsstring)" by (simp add: ascii_def NEWLINE_def)
  have b: "NEWLINE \<notin> set (ascii ''oops'' :: jsstring)" by (simp add: ascii_def NEWLINE_def)
  have c: "NEWLINE \<notin> set emptysid_text" by (simp add: emptysid_text_def ascii_def NEWLINE_def)
  have "split (ascii ''7'' @ NEWLINE # ascii ''oops'') NEWLINE = [ascii ''7'', ascii ''oops'']"
    by (rule split_two[OF a b])
  then show "split (ascii ''7'' @ [NEWLINE] @ ascii ''oops'') NEWLINE ! 1 = ascii ''oops''"
    by simp
  have "split (ascii ''7'' @ NEWLINE # emptysid_text) NEWLINE = [ascii ''7'', emptysid_text]"
    by (rule split_two[OF a c])
  then show "split (ascii ''7'' @ [NEWLINE] @ emptysid_text) NEWLINE ! 1 = emptysid_text"
    by simp
  show "NEWLINE \<in> set (ascii ''7'' @ [NEWLINE] @ ascii ''oops'')"
    "NEWLINE \<in> set (ascii ''7'' @ [NEWLINE] @ emptysid_text)" by simp_all
  show "NEWLINE \<notin> set (ascii ''7'' :: jsstring)" by (rule a)
qed

lemma parse_oops: "JSON_parse P0 (ascii ''oops'') = None"
  by (simp add: P0_def tablePlatform_def text_defs ascii_def)

lemma emptysid_path: "getPath emptysid_value [0, 1, 1] = Inr (JStr [])" "\<not> truthy (JStr [])"
  by (simp_all add: emptysid_value_def getIndex_def nullish_def)

lemma chooseServer_joined:
  "chooseServer P0 room (Response True (ascii ''OK'') choose_text)
     (Response True (ascii ''OK'') []) joined = (None, chosen)"
proof -
  have g: "getIndex choose_value 0 = Inr (JStr (ascii ''gs1''))"
    by (simp add: choose_value_def getIndex_def nullish_def)
  show ?thesis
    by (simp add: chosen_def chooseServer_ok[OF chats_joined parse_choose g])
qed

theorem C9_getSID_outcomes_witness:
  "\<not> (\<exists>a. chats (newClient defaults) room = Some a
          \<and> truthy (gsessionid (heap (newClient defaults) a)))
   \<and> getSID P0 room sid_response (newClient defaults)
       = (Some GsessionidNotFound, newClient defaults)
   \<and> chats chosen room = Some 0 \<and> truthy (gsessionid (heap chosen 0))
   \<and> fst (getSID P0 room Rejected chosen) = Some FetchRejected
   \<and> fst (getSID P0 room (Response False (ascii ''Bad Gateway'') []) chosen)
       = Some (GetSIDFailed (ascii ''Bad Gateway''))
   \<and> NEWLINE \<notin> set (ascii ''7'' :: jsstring)
   \<and> fst (getSID P0 room (Response True (ascii ''OK'') (ascii ''7'')) chosen)
       = Some InvalidGetSIDResponse
   \<and> NEWLINE \<in> set (ascii ''7'' @ [NEWLINE] @ ascii ''oops'')
   \<and> JSON_parse P0 (split (ascii ''7'' @ [NEWLINE] @ ascii ''oops'') NEWLINE ! 1) = None
   \<and> fst (getSID P0 room (Response True (ascii ''OK'') (ascii ''7'' @ [NEWLINE] @ ascii ''oops'')) chosen)
       = Some SyntaxError
   \<and> NEWLINE \<in> set (ascii ''7'' @ [NEWLINE] @ emptysid_text)
   \<and> JSON_parse P0 (split (ascii ''7'' @ [NEWLINE] @ emptysid_text) NEWLINE ! 1) = Some emptysid_value
   \<and> getPath emptysid_value [0, 1, 1] = Inr (JStr []) \<and> \<not> truthy (JStr [])
   \<and> fst (getSID P0 room (Response True (ascii ''OK'') (ascii ''7'' @ [NEWLINE] @ emptysid_text)) chosen)
       = Some CouldNotExtractSID
   \<and> NEWLINE \<in> set (ascii ''7'' @ [NEWLINE] @ sid_text)
   \<and> JSON_parse P0 (split (ascii ''7'' @ [NEWLINE] @ sid_text) NEWLINE ! 1) = Some sid_value
   \<and> getPath sid_value [0, 1, 1] = Inr (JStr (ascii ''sid1'')) \<and> truthy (JStr (ascii ''sid1''))
   \<and> fst (getSID P0 room (Response True (ascii ''OK'') (ascii ''7'' @ [NEWLINE] @ sid_text)) chosen) = None
   \<and> AID (heap (snd (getSID P0 room (Response True (ascii ''OK'') (ascii ''7'' @ [NEWLINE] @ sid_text)) chosen)) 0)
       = AID (heap chosen 0)
   \<and> chats joined room = Some 0 \<and> running (heap joined 0)
   \<and> chooseServer P0 room (chooseServer_response (network_up [])) (options_response (network_up [])) joined
       = (None, chosen)
   \<and> getSID P0 room (getSID_response ((network_up [])\<lparr>getSID_response := Rejected\<rparr>)) chosen
       = (Some FetchRejected, snd (getSID P0 room Rejected chosen))
   \<and> connect P0 room ((network_up [])\<lparr>getSID_response := Rejected\<rparr>) joined
       = Some (handleConnectionError room FetchRejected (snd (getSID P0 room Rejected chosen)))"
proof -
  have u: "\<not> (\<exists>a. chats (newClient defaults) room = Some a
          \<and> truthy (gsessionid (heap (newClient defaults) a)))"
    by (simp add: fresh_facts)
  have reg: "chats chosen room = Some 0 \<and> truthy (gsessionid (heap chosen 0))"
    by (simp add: chosen_facts)
  have p1: "JSON_parse P0 (split (ascii ''7'' @ [NEWLINE] @ ascii ''oops'') NEWLINE ! 1) = None"
    by (simp only: other_lines parse_oops)
  have p2: "JSON_parse P0 (split (ascii ''7'' @ [NEWLINE] @ emptysid_text) NEWLINE ! 1) = Some emptysid_value"
    by (simp only: other_lines parse_emptysid)
  have p3: "JSON_parse P0 (split (ascii ''7'' @ [NEWLINE] @ sid_text) NEWLINE ! 1) = Some sid_value"
    by (simp only: sid_lines parse_sid)
  have cs: "chooseServer P0 room (chooseServer_response (network_up [])) (options_response (network_up [])) joined
       = (None, chosen)"
    by (simp add: network_up_def chooseServer_joined)
  have gr: "getSID P0 room (getSID_response ((network_up [])\<lparr>getSID_response := Rejected\<rparr>)) chosen
       = (Some FetchRejected, snd (getSID P0 room Rejected chosen))"
    using getSID_rejected[OF chosen_facts(1,2), of P0]
    by (simp add: prod_eq_iff)
  have cs': "chooseServer P0 room
      (chooseServer_response ((network_up [])\<lparr>getSID_response := Rejected\<rparr>))
      (options_response ((network_up [])\<lparr>getSID_response := Rejected\<rparr>)) joined = (None, chosen)"
    using cs by simp
  note T = C9_getSID_outcomes[where P = P0 and cid = room and sidData = sid_value
      and sidv = "JStr (ascii ''sid1'')" and e = TypeError and ?st0.0 = joined and ?a0.0 = 0
      and io = "(network_up [])\<lparr>getSID_response := Rejected\<rparr>"
      and ?st1.0 = chosen and e' = FetchRejected
      and ?st2.0 = "snd (getSID P0 room Rejected chosen)" and a = 0
      and statusText = "ascii ''OK''" and resp = sid_response]
  have w1: "getSID P0 room sid_response (newClient defaults)
       = (Some GsessionidNotFound, newClient defaults)"
    using T[where st = "newClient defaults" and body = "[]"] u by blast
  have w2: "fst (getSID P0 room Rejected chosen) = Some FetchRejected"
    using T[where st = chosen and body = "[]"] reg by blast
  have w3: "fst (getSID P0 room (Response False (ascii ''Bad Gateway'') []) chosen)
       = Some (GetSIDFailed (ascii ''Bad Gateway''))"
    using C9_getSID_outcomes[where P = P0 and cid = room and sidData = sid_value
      and sidv = "JStr (ascii ''sid1'')" and e = TypeError and ?st0.0 = joined and ?a0.0 = 0
      and io = "(network_up [])\<lparr>getSID_response := Rejected\<rparr>"
      and ?st1.0 = chosen and e' = FetchRejected
      and ?st2.0 = "snd (getSID P0 room Rejected chosen)" and a = 0
      and statusText = "ascii ''Bad Gateway''" and resp = sid_response
      and st = chosen and body = "[]"] reg by blast
  have w4: "fst (getSID P0 room (Response True (ascii ''OK'') (ascii ''7'')) chosen)
       = Some InvalidGetSIDResponse"
    using T[where st = chosen and body = "ascii ''7''"] reg other_lines(5) by blast
  have w5: "fst (getSID P0 room (Response True (ascii ''OK'') (ascii ''7'' @ [NEWLINE] @ ascii ''oops'')) chosen)
       = Some SyntaxError"
    using T[where st = chosen and body = "ascii ''7'' @ [NEWLINE] @ ascii ''oops''"] reg
      other_lines(1) p1 by blast
  have w6: "fst (getSID P0 room (Response True (ascii ''OK'') (ascii ''7'' @ [NEWLINE] @ emptysid_text)) chosen)
       = Some CouldNotExtractSID"
    using C9_getSID_outcomes[where P = P0 and cid = room and sidData = emptysid_value
      and sidv = "JStr []" and e = TypeError and ?st0.0 = joined and ?a0.0 = 0
      and io = "(network_up [])\<lparr>getSID_response := Rejected\<rparr>"
      and ?st1.0 = chosen and e' = FetchRejected
      and ?st2.0 = "snd (getSID P0 room Rejected chosen)" and a = 0
      and statusText = "ascii ''OK''" and resp = sid_response
      and st = chosen and body = "ascii ''7'' @ [NEWLINE] @ emptysid_text"] reg
      other_lines(3) p2 emptysid_path by blast
  have w7: "fst (getSID P0 room (Response True (ascii ''OK'') (ascii ''7'' @ [NEWLINE] @ sid_text)) chosen) = None
     \<and> AID (heap (snd (getSID P0 room (Response True (ascii ''OK'') (ascii ''7'' @ [NEWLINE] @ sid_text)) chosen)) 0)
       = AID (heap chosen 0)"
    using T[where st = chosen and body = "ascii ''7'' @ [NEWLINE] @ sid_text"] reg
      sid_lines(1) p3 sid_value_path by blast
  have w8: "connect P0 room ((network_up [])\<lparr>getSID_response := Rejected\<rparr>) joined
       = Some (handleConnectionError room FetchRejected (snd (getSID P0 room Rejected chosen)))"
    using T[where st = chosen and body = "[]"] chats_joined joined_facts(1) cs' gr by blast
  show ?thesis
    using u w1 reg w2 w3 w4 w5 w6 w7 w8 p1 p2 p3 cs gr other_lines sid_lines emptysid_path
      sid_value_path chats_joined joined_facts(1)
    by blast
qed

text \<open>
  The claim C9 as stated fails in two ways. After a successful step the session holds the
  \<open>sid\<close> but not the acknowledgment number: the first line \<open>7\<close> is in no field, and
  \<open>AID\<close> is still 0. And the step throws on a success response of two lines whose \<open>sid\<close>
  is not empty: here the second line is not JSON.
\<close>

theorem C9_counterexample_ack_not_stored:
  "chats chosen room = Some 0 \<and> truthy (gsessionid (heap chosen 0))
   \<and> fst (getSID P0 room sid_response chosen) = None
   \<and> ToNumber P0 (JStr (split (ascii ''7'' @ [NEWLINE] @ sid_text) NEWLINE ! 0)) = JNum 7
   \<and> heap (snd (getSID P0 room sid_response chosen)) 0
       = \<lparr>chatId = room, running = True, gsessionid = JStr (ascii ''gs1''), nextRid = 50002,
          SID = JStr (ascii ''sid1''), AID = JNum 0, credsToken = [], reconnectAttempts = 0,
          refreshInterval = False\<rparr>
   \<and> NEWLINE \<in> set (ascii ''7'' @ [NEWLINE] @ ascii ''oops'')
   \<and> fst (getSID P0 room (Response True (ascii ''OK'') (ascii ''7'' @ [NEWLINE] @ ascii ''oops'')) chosen)
       = Some SyntaxError"
proof -
  note resp = getSID_response[OF chosen_facts(1,2), of P0 True "ascii ''OK''"]
  have p3: "JSON_parse P0 (split (ascii ''7'' @ [NEWLINE] @ sid_text) NEWLINE ! 1) = Some sid_value"
    by (simp only: sid_lines parse_sid)
  have p1: "JSON_parse P0 (split (ascii ''7'' @ [NEWLINE] @ ascii ''oops'') NEWLINE ! 1) = None"
    by (simp only: other_lines parse_oops)
  have ok: "fst (getSID P0 room sid_response chosen) = None"
    using sid_lines(1) p3 sid_value_path
    by (simp add: sid_response_def resp Let_def del: getPath.simps optPath.simps)
  have hp: "heap (snd (getSID P0 room sid_response chosen)) 0
       = \<lparr>chatId = room, running = True, gsessionid = JStr (ascii ''gs1''), nextRid = 50002,
          SID = JStr (ascii ''sid1''), AID = JNum 0, credsToken = [], reconnectAttempts = 0,
          refreshInterval = False\<rparr>"
    using sid_lines(1) p3 sid_value_path
    by (simp add: sid_response_def resp Let_def del: getPath.simps optPath.simps)
       (simp add: chosen_eq heap_joined)
  have ack: "ToNumber P0 (JStr (split (ascii ''7'' @ [NEWLINE] @ sid_text) NEWLINE ! 0)) = JNum 7"
    by (simp only: sid_lines ack_number)
  have bad: "fst (getSID P0 room (Response True (ascii ''OK'') (ascii ''7'' @ [NEWLINE] @ ascii ''oops'')) chosen)
       = Some SyntaxError"
    using other_lines(1) p1
    by (simp add: resp Let_def del: getPath.simps optPath.simps)
  show ?thesis
    using chosen_facts(1,2) ok ack hp other_lines(1) bad by blast
qed

section \<open>Properties of the lifecycle\<close>

subsection \<open>What the framer leaves unchanged\<close>

lemma processBuffer_preserves:
  assumes "processBuffer report handle buffer st = Some y"
    and "\<And>m n s. Q s \<Longrightarrow> Q (handle m n s)" and "\<And>p s. Q s \<Longrightarrow> Q (report p s)"
    and "Q st"
  shows "Q (snd y)"
proof -
  have "(\<forall>m n s. Q s \<longrightarrow> Q (handle m n s)) \<longrightarrow> (\<forall>p s. Q s \<longrightarrow> Q (report p s))
        \<longrightarrow> Q st \<longrightarrow> Q (snd y)"
  proof (rule processBuffer.raw_induct[where P = "\<lambda>report handle buffer st y.
        (\<forall>m n s. Q s \<longrightarrow> Q (handle m n s)) \<longrightarrow> (\<forall>p s. Q s \<longrightarrow> Q (report p s))
        \<longrightarrow> Q st \<longrightarrow> Q (snd y)", OF _ assms(1)], goal_cases)
    case (1 processBuffer report handle buffer st y)
    show ?case
    proof (intro impI)
      assume h: "\<forall>m n s. Q s \<longrightarrow> Q (handle m n s)"
        and r: "\<forall>p s. Q s \<longrightarrow> Q (report p s)" and q: "Q st"
      show "Q (snd y)"
      proof (cases "indexOf buffer LBRACKET = -1")
        case True
        then show ?thesis using 1(2) q by (auto simp add: Let_def)
      next
        case False
        let ?pre = "substring buffer 0 (indexOf buffer LBRACKET)"
        show ?thesis
        proof (cases "parseInt ?pre")
          case None
          then show ?thesis using 1(2) False q r by (auto simp: Let_def)
        next
          case (Some messageLength)
          show ?thesis
          proof (cases "int (length buffer) < int (length ?pre) + messageLength")
            case True
            then show ?thesis using 1(2) False Some q by (auto simp add: Let_def)
          next
            case notyet: False
            have "processBuffer report handle
                    (substring_from buffer (int (length ?pre) + messageLength))
                    (handle (substring buffer (indexOf buffer LBRACKET)
                       (int (length ?pre) + messageLength)) messageLength st) = Some y"
              using 1(2) False Some notyet by (simp add: Let_def)
            from 1(1)[OF this] h r q show ?thesis by blast
          qed
        qed
      qed
    qed
  qed
  then show ?thesis using assms(2-4) by blast
qed

lemma handleMessage_frame:
  "chats (handleMessage P m cid n st) = chats st
   \<and> reconnectAttempts (heap (handleMessage P m cid n st) b) = reconnectAttempts (heap st b)
   \<and> running (heap (handleMessage P m cid n st) b) = running (heap st b)
   \<and> refreshInterval (heap (handleMessage P m cid n st) b) = refreshInterval (heap st b)
   \<and> maxReconnectAttempts (handleMessage P m cid n st) = maxReconnectAttempts st
   \<and> initialReconnectDelayMs (handleMessage P m cid n st) = initialReconnectDelayMs st
   \<and> maxReconnectWaitMs (handleMessage P m cid n st) = maxReconnectWaitMs st
   \<and> scheduledWaits (trace (handleMessage P m cid n st)) = scheduledWaits (trace st)
   \<and> reconnectings (trace (handleMessage P m cid n st)) = reconnectings (trace st)"
  by (auto simp add: handleMessage_def handleMessage_catch_def Let_def emit_def effect_def
      modify_def scheduledWaits_def reconnectings_def events_def List.map_filter_def
      simp del: getPath.simps optPath.simps split: option.splits sum.splits)


lemma reconnectings_append: "reconnectings (xs @ ys) = reconnectings xs @ reconnectings ys"
  by (simp add: reconnectings_def events_append List.map_filter_def)

lemma samePolicy_refl: "samePolicy st st"
  by (simp add: samePolicy_def)

lemma samePolicy_trans: "samePolicy st s \<Longrightarrow> samePolicy s t \<Longrightarrow> samePolicy st t"
  by (simp add: samePolicy_def)

lemma samePolicy_handleMessage: "samePolicy st s \<Longrightarrow> samePolicy st (handleMessage P m cid n s)"
  using handleMessage_frame[of P m cid n s] by (simp add: samePolicy_def)

lemma samePolicy_report: "samePolicy st s \<Longrightarrow> samePolicy st (reportInvalidPrefix p s)"
  by (simp add: samePolicy_def reportInvalidPrefix_def effect_def reconnectings_def events_def
      List.map_filter_def)

lemma samePolicy_processBuffer:
  assumes "processBuffer_client P buffer cid st = Some (b, st')"
  shows "samePolicy st st'"
  using processBuffer_preserves[where Q = "samePolicy st" and st = st,
      OF assms[unfolded processBuffer_client_def]]
    samePolicy_handleMessage samePolicy_report samePolicy_refl
  by fastforce

lemma samePolicy_chooseServer:
  "samePolicy st (snd (chooseServer P cid req optionsReq st))"
  by (auto simp add: chooseServer_def samePolicy_def Let_def emit_def effect_def modify_def
      reconnectings_def events_def List.map_filter_def
      split: option.splits response.splits sum.splits)

lemma samePolicy_getSID: "samePolicy st (snd (getSID P cid resp st))"
  by (auto simp add: getSID_def samePolicy_def Let_def emit_def effect_def modify_def
      reconnectings_def events_def List.map_filter_def
      simp del: getPath.simps optPath.simps
      split: option.splits response.splits sum.splits)

lemma samePolicy_startCredentialRefresh: "samePolicy st (startCredentialRefresh cid st)"
  by (auto simp add: startCredentialRefresh_def samePolicy_def effect_def modify_def
      reconnectings_def events_def List.map_filter_def split: option.splits)

subsection \<open>The read loop on a stream that the server closes\<close>

lemma pump_client:
  "pump TextDecoder_decode reportInvalidPrefix (\<lambda>m n. handleMessage P m cid n) buffer v st
   = processBuffer_client P (buffer @ TextDecoder_decode v) cid st"
  by (simp add: pump_def processBuffer_client_def)

lemma samePolicy_feed:
  assumes "feed TextDecoder_decode reportInvalidPrefix (\<lambda>m n. handleMessage P m cid n)
             vs buffer st = Some (b, st')"
  shows "samePolicy st st'"
  using assms
proof (induction vs arbitrary: buffer st)
  case Nil
  then show ?case by (simp add: samePolicy_refl)
next
  case (Cons v vs)
  from Cons.prems obtain b1 st1 where
    1: "processBuffer_client P (buffer @ TextDecoder_decode v) cid st = Some (b1, st1)"
    and 2: "feed TextDecoder_decode reportInvalidPrefix (\<lambda>m n. handleMessage P m cid n)
              vs b1 st1 = Some (b, st')"
    by (auto simp add: pump_client split: option.splits)
  show ?case
    using samePolicy_trans[OF samePolicy_processBuffer[OF 1] Cons.IH[OF 2]] .
qed

lemma readLoop_chunk:
  assumes "chats st cid \<noteq> None"
  shows "readLoop P cid True buffer (Chunk v # rest) st
         = (case processBuffer_client P (buffer @ TextDecoder_decode v) cid st of
              None \<Rightarrow> None
            | Some (buffer', st') \<Rightarrow> readLoop P cid True buffer' rest st')"
  using assms by auto

lemma readLoop_done:
  assumes "chats st cid \<noteq> None"
  shows "readLoop P cid True buffer (Done # rest) st = Some (Threw StreamClosedByServer, st)"
  using assms by auto

lemma readLoop_chunks_done:
  assumes "chats st cid \<noteq> None"
  shows "readLoop P cid True buffer (map Chunk vs @ [Done]) st
         = (case feed TextDecoder_decode reportInvalidPrefix (\<lambda>m n. handleMessage P m cid n)
                  vs buffer st of
              None \<Rightarrow> None
            | Some (b, st') \<Rightarrow> Some (Threw StreamClosedByServer, st'))"
  using assms
proof (induction vs arbitrary: buffer st)
  case Nil
  show ?case by (simp only: list.map append_Nil readLoop_done[OF Nil.prems] feed.simps
        option.case prod.case)
next
  case (Cons v vs)
  have step: "readLoop P cid True buffer (map Chunk (v # vs) @ [Done]) st
         = (case processBuffer_client P (buffer @ TextDecoder_decode v) cid st of
              None \<Rightarrow> None
            | Some (buffer', st') \<Rightarrow> readLoop P cid True buffer' (map Chunk vs @ [Done]) st')"
    using readLoop_chunk[OF Cons.prems] by simp
  show ?case
  proof (cases "processBuffer_client P (buffer @ TextDecoder_decode v) cid st")
    case None
    then show ?thesis by (simp only: step feed.simps pump_client option.case)
  next
    case (Some r)
    obtain b1 st1 where r: "r = (b1, st1)" by (cases r)
    have "chats st1 cid \<noteq> None"
      using samePolicy_processBuffer[OF Some[unfolded r]] Cons.prems
      by (simp add: samePolicy_def)
    from Cons.IH[OF this] show ?thesis
      by (simp only: step feed.simps pump_client Some r option.case prod.case)
  qed
qed

lemma listen_open:
  assumes "chats st cid = Some a" and "truthy (SID (heap st a))"
    and "truthy (gsessionid (heap st a))"
  shows "listen P cid (ListenResponse True statusText (Some items)) st
         = readLoop P cid True [] items
             (startCredentialRefresh cid
                (effect (Fetch (ListenRequest (AID (heap st a))))
                   (modify a (\<lambda>c. c\<lparr>AID := increment P (AID c)\<rparr>) st)))"
  using assms by (simp add: listen_def Let_def)

lemma samePolicy_listen_prelude:
  "samePolicy st (startCredentialRefresh cid
                (effect (Fetch (ListenRequest x))
                   (modify a (\<lambda>c. c\<lparr>AID := increment P (AID c)\<rparr>) st)))"
proof -
  have "samePolicy st (effect (Fetch (ListenRequest x))
                   (modify a (\<lambda>c. c\<lparr>AID := increment P (AID c)\<rparr>) st))"
    by (simp add: samePolicy_def effect_def modify_def reconnectings_def events_def
        List.map_filter_def)
  then show ?thesis
    using samePolicy_startCredentialRefresh samePolicy_trans by blast
qed

lemma getSID_success:
  assumes "getSID P cid resp st = (None, st')" and "chats st cid = Some a"
  shows "truthy (SID (heap st' a)) \<and> truthy (gsessionid (heap st' a))"
  using assms
  by (auto simp add: getSID_def Let_def emit_def effect_def modify_def
      simp del: getPath.simps optPath.simps
      split: option.splits response.splits sum.splits if_splits)

text \<open>
  A connect whose handshake completes and whose stream opens, delivers chunks and is then
  closed by the server: the reconnect policy runs on the state that the chunks leave, in
  which the attempt count is the one from before the connect.
\<close>

lemma connect_closed_eq:
  assumes reg: "chats st cid = Some a" and run: "running (heap st a)"
    and cs: "chooseServer P cid (chooseServer_response io) (options_response io) st = (None, st1)"
    and gs: "getSID P cid (getSID_response io) st1 = (None, st2)"
    and ls: "listen_response io = ListenResponse True statusText (Some (map Chunk vs @ [Done]))"
  shows "samePolicy st (startCredentialRefresh cid
                (effect (Fetch (ListenRequest (AID (heap st2 a))))
                   (modify a (\<lambda>c. c\<lparr>AID := increment P (AID c)\<rparr>) st2)))"
    and "connect P cid io st
         = (case feed TextDecoder_decode reportInvalidPrefix (\<lambda>m n. handleMessage P m cid n)
                  vs []
                  (startCredentialRefresh cid
                    (effect (Fetch (ListenRequest (AID (heap st2 a))))
                       (modify a (\<lambda>c. c\<lparr>AID := increment P (AID c)\<rparr>) st2))) of
              None \<Rightarrow> None
            | Some (b, st3) \<Rightarrow> Some (handleConnectionError cid StreamClosedByServer st3))"
proof -
  have p1: "samePolicy st st1" using samePolicy_chooseServer[of st P cid] cs by (metis snd_conv)
  have p2: "samePolicy st1 st2" using samePolicy_getSID[of st1 P cid] gs by (metis snd_conv)
  have reg1: "chats st1 cid = Some a" using p1 reg by (simp add: samePolicy_def)
  have reg2: "chats st2 cid = Some a" using p2 reg1 by (simp add: samePolicy_def)
  note ok = getSID_success[OF gs reg1]
  let ?st2' = "startCredentialRefresh cid
                (effect (Fetch (ListenRequest (AID (heap st2 a))))
                   (modify a (\<lambda>c. c\<lparr>AID := increment P (AID c)\<rparr>) st2))"
  have p3: "samePolicy st2 ?st2'" by (rule samePolicy_listen_prelude)
  show "samePolicy st ?st2'" using p1 p2 p3 samePolicy_trans by blast
  have reg3: "chats ?st2' cid \<noteq> None" using p3 reg2 by (simp add: samePolicy_def)
  have l: "listen P cid (listen_response io) st2
           = (case feed TextDecoder_decode reportInvalidPrefix (\<lambda>m n. handleMessage P m cid n)
                  vs [] ?st2' of
              None \<Rightarrow> None
            | Some (b, st3) \<Rightarrow> Some (Threw StreamClosedByServer, st3))"
    using ok by (simp only: ls listen_open[OF reg2] readLoop_chunks_done[OF reg3])
  show "connect P cid io st
         = (case feed TextDecoder_decode reportInvalidPrefix (\<lambda>m n. handleMessage P m cid n)
                  vs [] ?st2' of
              None \<Rightarrow> None
            | Some (b, st3) \<Rightarrow> Some (handleConnectionError cid StreamClosedByServer st3))"
    using reg run cs gs l by (simp add: connect_def split: option.splits)
qed

lemma connect_then_closed:
  assumes reg: "chats st cid = Some a" and run: "running (heap st a)"
    and cs: "chooseServer P cid (chooseServer_response io) (options_response io) st = (None, st1)"
    and gs: "getSID P cid (getSID_response io) st1 = (None, st2)"
    and ls: "listen_response io = ListenResponse True statusText (Some (map Chunk vs @ [Done]))"
    and res: "connect P cid io st = Some st'"
  shows "\<exists>st3. samePolicy st st3 \<and> st' = handleConnectionError cid StreamClosedByServer st3"
proof -
  let ?st2' = "startCredentialRefresh cid
                (effect (Fetch (ListenRequest (AID (heap st2 a))))
                   (modify a (\<lambda>c. c\<lparr>AID := increment P (AID c)\<rparr>) st2))"
  note eq = connect_closed_eq[OF reg run cs gs ls]
  show ?thesis
  proof (cases "feed TextDecoder_decode reportInvalidPrefix (\<lambda>m n. handleMessage P m cid n)
                  vs [] ?st2'")
    case None
    then show ?thesis using res eq(2) by simp
  next
    case (Some r)
    obtain b st3 where r: "r = (b, st3)" by (cases r)
    have p4: "samePolicy ?st2' st3" using samePolicy_feed Some r by blast
    have "samePolicy st st3"
      using eq(1) p4 samePolicy_trans by blast
    moreover have "st' = handleConnectionError cid StreamClosedByServer st3"
      using res eq(2) Some r by simp
    ultimately show ?thesis by blast
  qed
qed

subsection \<open>When \<open>listen\<close> returns\<close>

lemma readLoop_returned:
  "readLoop P cid atHead buffer items st = Some (Returned, st') \<Longrightarrow> chats st' cid = None"
proof (induction P cid atHead buffer items st rule: readLoop.induct)
  case (1 P cid buffer items st)
  show ?case
  proof (cases "chats st cid = None")
    case True
    then show ?thesis using "1.prems" by (auto simp add: effect_def)
  next
    case False
    then show ?thesis using 1 by (cases items) auto
  qed
next
  case (6 P cid buffer v rest st)
  then show ?case by (auto split: option.splits)
qed auto

lemma listen_returned:
  "listen P cid resp st = Some (Returned, st') \<Longrightarrow> chats st' cid = None"
  by (auto simp add: listen_def Let_def simp del: readLoop.simps dest: readLoop_returned
      split: option.splits if_splits listen_response.splits)

text \<open>
  C3 fails on the code. \<open>connect\<close> resets the counter after \<open>await this.listen(chatId)\<close>,
  and \<open>listen\<close> returns only when the session has left the registry; while the session
  is registered \<open>listen\<close> ends by throwing. So after a connect whose handshake completed
  and whose stream opened and delivered chunks, when the server closes the stream the policy
  still sees the attempt count from before the connect: the \<open>reconnecting\<close> event carries
  that count plus one and the wait computed from it, and a session that had used up its
  attempts is stopped.
\<close>

theorem C3_attempts_not_reset:
  assumes "chats st cid = Some a" and "running (heap st a)"
    and "chooseServer P cid (chooseServer_response io) (options_response io) st = (None, st1)"
    and "getSID P cid (getSID_response io) st1 = (None, st2)"
    and "listen_response io = ListenResponse True statusText (Some (map Chunk vs @ [Done]))"
    and "connect P cid io st = Some st'"
  shows "(\<not> givesUp st a \<longrightarrow>
            reconnectings (trace st')
              = reconnectings (trace st)
                @ [(reconnectAttempts (heap st a) + 1,
                    Math_min (timesPow2 (initialReconnectDelayMs st) (reconnectAttempts (heap st a)))
                      (maxReconnectWaitMs st))]
            \<and> reconnectAttempts (heap st' a) = reconnectAttempts (heap st a) + 1)
         \<and> (\<not> givesUp st a \<and> initialReconnectDelayMs st = Finite d
              \<and> maxReconnectWaitMs st = Finite w \<and> 0 \<le> d
              \<and> (1 \<le> d \<or> reconnectAttempts (heap st a) < 1024) \<and> w < 2 ^ 1024 \<longrightarrow>
            reconnectings (trace st')
              = reconnectings (trace st)
                @ [(reconnectAttempts (heap st a) + 1,
                    Finite (min (d * 2 ^ reconnectAttempts (heap st a)) w))])
         \<and> (givesUp st a \<longrightarrow> chats st' cid = None)
         \<and> (listen P cid resp s0 = Some (Returned, s3) \<longrightarrow> chats s3 cid = None)"
proof -
  from connect_then_closed[OF assms] obtain s where
    s: "samePolicy st s" and st': "st' = handleConnectionError cid StreamClosedByServer s"
    by blast
  have reg: "chats s cid = Some a" and run: "running (heap s a)"
    and n: "reconnectAttempts (heap s a) = reconnectAttempts (heap st a)"
    and cfg: "maxReconnectAttempts s = maxReconnectAttempts st"
      "initialReconnectDelayMs s = initialReconnectDelayMs st"
      "maxReconnectWaitMs s = maxReconnectWaitMs st"
    and tr: "reconnectings (trace s) = reconnectings (trace st)"
    using s assms(1,2) by (simp_all add: samePolicy_def)
  have retry: "\<not> givesUp st a \<Longrightarrow>
      reconnectings (trace st')
        = reconnectings (trace st)
          @ [(reconnectAttempts (heap st a) + 1,
              Math_min (timesPow2 (initialReconnectDelayMs st) (reconnectAttempts (heap st a)))
                (maxReconnectWaitMs st))]
      \<and> reconnectAttempts (heap st' a) = reconnectAttempts (heap st a) + 1"
  proof -
    assume "\<not> givesUp st a"
    then have r: "\<not> givesUp s a"
      by (simp add: givesUp_def n cfg)
    show ?thesis
      by (simp add: st' handleConnectionError_retry[OF reg run r] reconnectings_append n cfg tr)
         (simp add: reconnectings_def events_def List.map_filter_def)
  qed
  have exact: "reconnectings (trace st')
        = reconnectings (trace st)
          @ [(reconnectAttempts (heap st a) + 1,
              Finite (min (d * 2 ^ reconnectAttempts (heap st a)) w))]"
    if "\<not> givesUp st a" and "initialReconnectDelayMs st = Finite d"
      and "maxReconnectWaitMs st = Finite w" and "0 \<le> d"
      and "1 \<le> d \<or> reconnectAttempts (heap st a) < 1024" and "w < 2 ^ 1024"
    using retry[OF that(1)] by (simp add: that(2,3) wait_exact[OF that(4,5,6)])
  have stop: "givesUp st a \<Longrightarrow> chats st' cid = None"
  proof -
    assume "givesUp st a"
    then have g: "givesUp s a"
      by (simp add: givesUp_def n cfg)
    show ?thesis
      by (simp add: st' handleConnectionError_give_up[OF reg run g])
  qed
  have returned: "listen P cid resp s0 = Some (Returned, s3) \<Longrightarrow> chats s3 cid = None"
    by (rule listen_returned)
  show ?thesis using retry exact stop returned by blast
qed

subsection \<open>The example: a failure, then a connect that the server closes\<close>

lemma connect_down:
  assumes "chats st cid = Some a" and "running (heap st a)"
  shows "connect P cid network_down st
         = Some (handleConnectionError cid FetchRejected (effect (Fetch ChooseServerRequest) st))"
  using assms by (simp add: connect_def chooseServer_def network_down_def Let_def)

lemma first_failure: "connect P0 room network_down joined = Some failed_once"
  by (simp add: connect_down[OF chats_joined joined_facts(1)] failed_once_def)

lemma failed_once_eq:
  "failed_once
   = joined\<lparr>heap := (heap joined)(0 := (heap joined 0)\<lparr>reconnectAttempts := 1\<rparr>),
            trace := [StartConnect room, Fetch ChooseServerRequest,
                      Emit (EvConnectionError FetchRejected), Emit (EvReconnecting 1 (Finite 1000)),
                      SetTimeout room (Finite 1000)]\<rparr>"
proof -
  let ?st = "effect (Fetch ChooseServerRequest) joined"
  have c: "chats ?st room = Some 0" by (simp add: effect_def chats_joined)
  have r: "running (heap ?st 0)" by (simp add: effect_def joined_facts)
  have n: "\<not> givesUp ?st 0"
    by (simp add: givesUp_def effect_def joined_facts)
  show ?thesis
    by (simp add: failed_once_def handleConnectionError_retry[OF c r n])
       (simp add: effect_def joined_facts trace_joined first_wait)
qed

lemma failed_once_facts:
  "chats failed_once room = Some 0" "running (heap failed_once 0)"
  "reconnectAttempts (heap failed_once 0) = 1" "maxReconnectAttempts failed_once = Finite 5"
  "initialReconnectDelayMs failed_once = Finite 1000"
  "maxReconnectWaitMs failed_once = Finite 30000"
  "reconnectings (trace failed_once) = [(1, Finite 1000)]" "\<not> givesUp failed_once 0"
  by (simp_all add: failed_once_eq chats_joined joined_facts givesUp_def reconnectings_def
      events_def List.map_filter_def)

lemma network_up_fields:
  "chooseServer_response (network_up items) = Response True (ascii ''OK'') choose_text"
  "options_response (network_up items) = Response True (ascii ''OK'') []"
  "getSID_response (network_up items) = sid_response"
  "listen_response (network_up items) = ListenResponse True (ascii ''OK'') (Some items)"
  by (simp_all add: network_up_def sid_response_def)

lemma handshake_up:
  assumes "chats st room = Some 0"
  shows "chooseServer P0 room (chooseServer_response (network_up items))
           (options_response (network_up items)) st
         = (None, snd (chooseServer P0 room (Response True (ascii ''OK'') choose_text)
                         (Response True (ascii ''OK'') []) st))"
    and "getSID P0 room (getSID_response (network_up items))
           (snd (chooseServer P0 room (Response True (ascii ''OK'') choose_text)
                         (Response True (ascii ''OK'') []) st))
         = (None, snd (getSID P0 room sid_response
              (snd (chooseServer P0 room (Response True (ascii ''OK'') choose_text)
                         (Response True (ascii ''OK'') []) st))))"
proof -
  have g: "getIndex choose_value 0 = Inr (JStr (ascii ''gs1''))"
    by (simp add: choose_value_def getIndex_def nullish_def)
  note cs = chooseServer_ok[OF assms parse_choose g, where statusText = "ascii ''OK''"
      and ok' = True and statusText' = "ascii ''OK''" and body' = "[]"]
  let ?st1 = "snd (chooseServer P0 room (Response True (ascii ''OK'') choose_text)
                         (Response True (ascii ''OK'') []) st)"
  show "chooseServer P0 room (chooseServer_response (network_up items))
           (options_response (network_up items)) st = (None, ?st1)"
    by (simp add: network_up_fields cs)
  have c1: "chats ?st1 room = Some 0" by (simp add: cs assms)
  have t1: "truthy (gsessionid (heap ?st1 0))" unfolding cs by (simp add: ascii_def)
  have p3: "JSON_parse P0 (split (ascii ''7'' @ [NEWLINE] @ sid_text) NEWLINE ! 1) = Some sid_value"
    by (simp only: sid_lines parse_sid)
  have "fst (getSID P0 room sid_response ?st1) = None"
    using sid_lines(1) p3 sid_value_path
    by (simp add: sid_response_def getSID_response[OF c1 t1] Let_def
        del: getPath.simps optPath.simps)
  then show "getSID P0 room (getSID_response (network_up items)) ?st1
         = (None, snd (getSID P0 room sid_response ?st1))"
    by (simp add: network_up_fields prod_eq_iff)
qed

lemma example_stream_chunks:
  "example_stream
   = map Chunk [encodeFrame established_bytes @ take 5 (encodeFrame data_bytes),
                drop 5 (encodeFrame data_bytes)] @ [Done]"
  by (simp add: example_stream_def)

lemma example_stream_decoded:
  "concat (map TextDecoder_decode
     [encodeFrame established_bytes @ take 5 (encodeFrame data_bytes),
      drop 5 (encodeFrame data_bytes)])
   = concat (map encodeFrame [established_text, data_text])"
proof -
  have asc: "\<forall>p \<in> set [established_bytes, data_bytes]. \<forall>b \<in> set p. b < 0x80"
    by (simp add: established_bytes_def data_bytes_def ascii_def)
  have cut: "concat [encodeFrame established_bytes @ take 5 (encodeFrame data_bytes),
                     drop 5 (encodeFrame data_bytes)]
             = concat (map encodeFrame [established_bytes, data_bytes])"
    by simp
  have u: "map (map ucast) [established_bytes, data_bytes] = [established_text, data_text]"
    by (simp add: established_bytes_def data_bytes_def established_text_def data_text_def
        ascii_def)
  show ?thesis
    using decoded_ascii_stream[OF asc cut] by (simp only: u)
qed

lemma connect_example:
  assumes "chats st room = Some 0" and "running (heap st 0)"
  shows "connect P0 room (network_up example_stream) st \<noteq> None"
proof -
  let ?st2 = "snd (getSID P0 room sid_response
              (snd (chooseServer P0 room (Response True (ascii ''OK'') choose_text)
                         (Response True (ascii ''OK'') []) st)))"
  have ls: "listen_response (network_up example_stream)
            = ListenResponse True (ascii ''OK'')
                (Some (map Chunk [encodeFrame established_bytes @ take 5 (encodeFrame data_bytes),
                                  drop 5 (encodeFrame data_bytes)] @ [Done]))"
    by (simp only: network_up_fields example_stream_chunks)
  have wf: "\<forall>p \<in> set [established_text, data_text]. wellFramed p"
    by (simp add: wellFramed_texts)
  note f = chunk_independence_decoded[OF wf example_stream_decoded]
  show ?thesis
    by (simp only: connect_closed_eq(2)[OF assms handshake_up[OF assms(1)] ls] f
        option.case prod.case option.distinct not_False_eq_True)
qed


subsection \<open>A stream during which the application stops the session\<close>

lemma chats_stop: "chats (stop cid st) cid = None"
  by (simp add: stop_def Let_def emit_def effect_def modify_def split: option.splits)

lemma TextDecoder_decode_Nil: "TextDecoder_decode [] = []"
  by (simp add: TextDecoder_decode_def stripBOM_def)

lemma listen_stopped:
  assumes "chats st cid = Some a" and "truthy (SID (heap st a))"
    and "truthy (gsessionid (heap st a))"
  shows "\<exists>s. listen P cid (ListenResponse True statusText (Some [ExternalStop, Chunk []])) st
             = Some (Returned, s)"
proof -
  let ?s = "startCredentialRefresh cid
              (effect (Fetch (ListenRequest (AID (heap st a))))
                 (modify a (\<lambda>c. c\<lparr>AID := increment P (AID c)\<rparr>) st))"
  have "chats ?s cid = Some a"
    using samePolicy_listen_prelude[of st cid "AID (heap st a)" a P] assms(1)
    by (simp add: samePolicy_def)
  then have "readLoop P cid True [] [ExternalStop, Chunk []] ?s
             = Some (Returned, effect ReaderCancel (stop cid ?s))"
    by (simp add: chats_stop TextDecoder_decode_Nil processBuffer_client_empty)
  then show ?thesis by (simp only: listen_open[OF assms]) blast
qed

lemma handshaken_facts:
  "chats handshaken room = Some 0" "truthy (SID (heap handshaken 0))"
  "truthy (gsessionid (heap handshaken 0))"
proof -
  let ?st1 = "snd (chooseServer P0 room (Response True (ascii ''OK'') choose_text)
                     (Response True (ascii ''OK'') []) failed_once)"
  have c1: "chats ?st1 room = Some 0"
    using samePolicy_chooseServer[of failed_once P0 room] failed_once_facts(1)
    by (simp add: samePolicy_def)
  show "chats handshaken room = Some 0"
    using samePolicy_getSID[of ?st1 P0 room sid_response] c1
    by (simp add: samePolicy_def handshaken_def)
  have "getSID P0 room sid_response ?st1 = (None, handshaken)"
    using handshake_up(2)[OF failed_once_facts(1), of "[]"]
    by (simp add: network_up_fields handshaken_def)
  from getSID_success[OF this c1]
  show "truthy (SID (heap handshaken 0))" "truthy (gsessionid (heap handshaken 0))"
    by simp_all
qed

lemma exhausted_givesUp: "givesUp exhausted 0"
  by (simp add: givesUp_def exhausted_facts)

theorem C3_attempts_not_reset_witness:
  "chats failed_once room = Some 0
   \<and> running (heap failed_once 0)
   \<and> reconnectAttempts (heap failed_once 0) = 1
   \<and> \<not> givesUp failed_once 0
   \<and> map_option (\<lambda>s. (reconnectings (trace s), reconnectAttempts (heap s 0)))
        (connect P0 room (network_up example_stream) failed_once)
      = Some ([(1, Finite 1000), (2, Finite 2000)], 2)
   \<and> chats exhausted room = Some 0
   \<and> running (heap exhausted 0)
   \<and> givesUp exhausted 0
   \<and> map_option (\<lambda>s. chats s room) (connect P0 room (network_up example_stream) exhausted)
      = Some None
   \<and> map_option fst
        (listen P0 room (ListenResponse True (ascii ''OK'') (Some [ExternalStop, Chunk []]))
           handshaken)
      = Some Returned
   \<and> map_option (\<lambda>r. chats (snd r) room)
        (listen P0 room (ListenResponse True (ascii ''OK'') (Some [ExternalStop, Chunk []]))
           handshaken)
      = Some None"
proof -
  note f = failed_once_facts
  note x = exhausted_facts
  let ?io = "network_up example_stream"
  let ?resp = "ListenResponse True (ascii ''OK'') (Some [ExternalStop, Chunk []])"
  have ls: "listen_response ?io
            = ListenResponse True (ascii ''OK'')
                (Some (map Chunk [encodeFrame established_bytes @ take 5 (encodeFrame data_bytes),
                                  drop 5 (encodeFrame data_bytes)] @ [Done]))"
    by (simp only: network_up_fields example_stream_chunks)
  obtain s3 where l: "listen P0 room ?resp handshaken = Some (Returned, s3)"
    using listen_stopped[OF handshaken_facts] by blast
  obtain st' where c: "connect P0 room ?io failed_once = Some st'"
    using connect_example[OF f(1,2)] by blast
  obtain st'' where d: "connect P0 room ?io exhausted = Some st''"
    using connect_example[OF x(1,2)] by blast
  note retry = C3_attempts_not_reset[OF f(1,2) handshake_up[OF f(1)] ls c,
      where resp = ?resp and ?s0.0 = handshaken and ?s3.0 = s3 and d = 1000 and w = 30000]
  note stopped = C3_attempts_not_reset[OF x(1,2) handshake_up[OF x(1)] ls d,
      where resp = ?resp and ?s0.0 = handshaken and ?s3.0 = s3 and d = 1000 and w = 30000]
  have b: "(0 :: real) \<le> 1000 \<and> ((1 :: real) \<le> 1000 \<or> reconnectAttempts (heap failed_once 0) < 1024)
           \<and> (30000 :: real) < 2 ^ 1024"
    by simp
  have "reconnectings (trace st')
        = reconnectings (trace failed_once)
          @ [(reconnectAttempts (heap failed_once 0) + 1,
              Finite (min (1000 * 2 ^ reconnectAttempts (heap failed_once 0)) 30000))]"
    using retry f(5,6,8) b by blast
  then have 1: "reconnectings (trace st') = [(1, Finite 1000), (2, Finite 2000)]"
    by (simp add: f)
  have 2: "reconnectAttempts (heap st' 0) = 2"
    using retry f by simp
  have 3: "chats st'' room = None"
    using stopped exhausted_givesUp by blast
  have 4: "chats s3 room = None"
    using retry l by blast
  show ?thesis
    by (simp add: f x exhausted_givesUp c d l 1 2 3 4)
qed

end
